theory Spec2Isabelle
  imports Complex_Main "HOL-Library.Monad_Syntax"
begin

section \<open>JavaScript strings\<close>

text \<open>
  A JavaScript string is a sequence of UTF-16 code units. A code unit is modelled as an
  integer (the value \<open>charCodeAt\<close> returns) and a string as a list of them; every
  ASCII literal of the source is written as an Isabelle string and converted by \<open>js\<close>.
\<close>

type_synonym jsstring = "int list"

definition js :: "string \<Rightarrow> jsstring" where
  "js s = map of_char s"

text \<open>White space and line terminators: what \<open>\s\<close> matches and what \<open>trim\<close> strips.\<close>

definition isSpace :: "int \<Rightarrow> bool" where
  "isSpace c = (c = 32 \<or> (9 \<le> c \<and> c \<le> 13) \<or> c = 160 \<or> c = 5760
     \<or> (8192 \<le> c \<and> c \<le> 8202) \<or> c = 8232 \<or> c = 8233 \<or> c = 8239 \<or> c = 8287
     \<or> c = 12288 \<or> c = 65279)"

definition isDigit :: "int \<Rightarrow> bool" where
  "isDigit c = (48 \<le> c \<and> c \<le> 57)"

text \<open>\<open>\w\<close>: ASCII letters, digits and the underscore.\<close>

definition isWordChar :: "int \<Rightarrow> bool" where
  "isWordChar c = ((97 \<le> c \<and> c \<le> 122) \<or> (65 \<le> c \<and> c \<le> 90) \<or> (48 \<le> c \<and> c \<le> 57) \<or> c = 95)"

definition isLineTerminator :: "int \<Rightarrow> bool" where
  "isLineTerminator c = (c = 10 \<or> c = 13 \<or> c = 8232 \<or> c = 8233)"

definition trimStart :: "jsstring \<Rightarrow> jsstring" where
  "trimStart s = dropWhile isSpace s"

definition trim :: "jsstring \<Rightarrow> jsstring" where
  "trim s = rev (dropWhile isSpace (rev (dropWhile isSpace s)))"

text \<open>
  \<open>toLowerCase\<close> is the default case conversion of Unicode, which does not depend on
  the locale. It works on code points: a high surrogate followed by a low one is one code
  point, any other code unit is a code point of its own. The tables are those of
  Unicode 14.0: a range \<open>(first, last, step, delta)\<close> says that every \<open>step\<close>-th code
  point from \<open>first\<close> to \<open>last\<close> has the lower case \<open>delta\<close> further on.
\<close>

definition lowerRanges :: "(int \<times> int \<times> int \<times> int) list" where
  "lowerRanges =
    [(192, 214, 1, 32), (216, 222, 1, 32), (256, 302, 2, 1), (306, 310, 2, 1),
     (313, 327, 2, 1), (330, 374, 2, 1), (376, 376, 1, - 121), (377, 381, 2, 1),
     (385, 385, 1, 210), (386, 388, 2, 1), (390, 390, 1, 206), (391, 391, 1, 1),
     (393, 394, 1, 205), (395, 395, 1, 1), (398, 398, 1, 79), (399, 399, 1, 202),
     (400, 400, 1, 203), (401, 401, 1, 1), (403, 403, 1, 205), (404, 404, 1, 207),
     (406, 406, 1, 211), (407, 407, 1, 209), (408, 408, 1, 1), (412, 412, 1, 211),
     (413, 413, 1, 213), (415, 415, 1, 214), (416, 420, 2, 1), (422, 422, 1, 218),
     (423, 423, 1, 1), (425, 425, 1, 218), (428, 428, 1, 1), (430, 430, 1, 218),
     (431, 431, 1, 1), (433, 434, 1, 217), (435, 437, 2, 1), (439, 439, 1, 219),
     (440, 440, 1, 1), (444, 444, 1, 1), (452, 452, 1, 2), (453, 453, 1, 1), (455, 455, 1, 2),
     (456, 456, 1, 1), (458, 458, 1, 2), (459, 475, 2, 1), (478, 494, 2, 1), (497, 497, 1, 2),
     (498, 500, 2, 1), (502, 502, 1, - 97), (503, 503, 1, - 56), (504, 542, 2, 1),
     (544, 544, 1, - 130), (546, 562, 2, 1), (570, 570, 1, 10795), (571, 571, 1, 1),
     (573, 573, 1, - 163), (574, 574, 1, 10792), (577, 577, 1, 1), (579, 579, 1, - 195),
     (580, 580, 1, 69), (581, 581, 1, 71), (582, 590, 2, 1), (880, 882, 2, 1),
     (886, 886, 1, 1), (895, 895, 1, 116), (902, 902, 1, 38), (904, 906, 1, 37),
     (908, 908, 1, 64), (910, 911, 1, 63), (913, 929, 1, 32), (932, 939, 1, 32),
     (975, 975, 1, 8), (984, 1006, 2, 1), (1012, 1012, 1, - 60), (1015, 1015, 1, 1),
     (1017, 1017, 1, - 7), (1018, 1018, 1, 1), (1021, 1023, 1, - 130), (1024, 1039, 1, 80),
     (1040, 1071, 1, 32), (1120, 1152, 2, 1), (1162, 1214, 2, 1), (1216, 1216, 1, 15),
     (1217, 1229, 2, 1), (1232, 1326, 2, 1), (1329, 1366, 1, 48), (4256, 4293, 1, 7264),
     (4295, 4295, 1, 7264), (4301, 4301, 1, 7264), (5024, 5103, 1, 38864), (5104, 5109, 1, 8),
     (7312, 7354, 1, - 3008), (7357, 7359, 1, - 3008), (7680, 7828, 2, 1),
     (7838, 7838, 1, - 7615), (7840, 7934, 2, 1), (7944, 7951, 1, - 8), (7960, 7965, 1, - 8),
     (7976, 7983, 1, - 8), (7992, 7999, 1, - 8), (8008, 8013, 1, - 8), (8025, 8031, 2, - 8),
     (8040, 8047, 1, - 8), (8072, 8079, 1, - 8), (8088, 8095, 1, - 8), (8104, 8111, 1, - 8),
     (8120, 8121, 1, - 8), (8122, 8123, 1, - 74), (8124, 8124, 1, - 9), (8136, 8139, 1, - 86),
     (8140, 8140, 1, - 9), (8152, 8153, 1, - 8), (8154, 8155, 1, - 100), (8168, 8169, 1, - 8),
     (8170, 8171, 1, - 112), (8172, 8172, 1, - 7), (8184, 8185, 1, - 128),
     (8186, 8187, 1, - 126), (8188, 8188, 1, - 9), (8486, 8486, 1, - 7517),
     (8490, 8490, 1, - 8383), (8491, 8491, 1, - 8262), (8498, 8498, 1, 28),
     (8544, 8559, 1, 16), (8579, 8579, 1, 1), (9398, 9423, 1, 26), (11264, 11311, 1, 48),
     (11360, 11360, 1, 1), (11362, 11362, 1, - 10743), (11363, 11363, 1, - 3814),
     (11364, 11364, 1, - 10727), (11367, 11371, 2, 1), (11373, 11373, 1, - 10780),
     (11374, 11374, 1, - 10749), (11375, 11375, 1, - 10783), (11376, 11376, 1, - 10782),
     (11378, 11378, 1, 1), (11381, 11381, 1, 1), (11390, 11391, 1, - 10815),
     (11392, 11490, 2, 1), (11499, 11501, 2, 1), (11506, 11506, 1, 1), (42560, 42604, 2, 1),
     (42624, 42650, 2, 1), (42786, 42798, 2, 1), (42802, 42862, 2, 1), (42873, 42875, 2, 1),
     (42877, 42877, 1, - 35332), (42878, 42886, 2, 1), (42891, 42891, 1, 1),
     (42893, 42893, 1, - 42280), (42896, 42898, 2, 1), (42902, 42920, 2, 1),
     (42922, 42922, 1, - 42308), (42923, 42923, 1, - 42319), (42924, 42924, 1, - 42315),
     (42925, 42925, 1, - 42305), (42926, 42926, 1, - 42308), (42928, 42928, 1, - 42258),
     (42929, 42929, 1, - 42282), (42930, 42930, 1, - 42261), (42931, 42931, 1, 928),
     (42932, 42946, 2, 1), (42948, 42948, 1, - 48), (42949, 42949, 1, - 42307),
     (42950, 42950, 1, - 35384), (42951, 42953, 2, 1), (42960, 42960, 1, 1),
     (42966, 42968, 2, 1), (42997, 42997, 1, 1), (65313, 65338, 1, 32), (66560, 66599, 1, 40),
     (66736, 66771, 1, 40), (66928, 66938, 1, 39), (66940, 66954, 1, 39),
     (66956, 66962, 1, 39), (66964, 66965, 1, 39), (68736, 68786, 1, 64),
     (71840, 71871, 1, 32), (93760, 93791, 1, 32), (125184, 125217, 1, 34)]"

text \<open>
  The code points that a search for a cased letter skips (the property Case_Ignorable),
  and the cased letters among the others.
\<close>

definition caseIgnorableRanges :: "(int \<times> int) list" where
  "caseIgnorableRanges =
    [(39, 39), (46, 46), (58, 58), (94, 94), (96, 96), (168, 168), (173, 173), (175, 175),
     (180, 180), (183, 184), (688, 879), (884, 885), (890, 890), (900, 901), (903, 903),
     (1155, 1161), (1369, 1369), (1375, 1375), (1425, 1469), (1471, 1471), (1473, 1474),
     (1476, 1477), (1479, 1479), (1524, 1524), (1536, 1541), (1552, 1562), (1564, 1564),
     (1600, 1600), (1611, 1631), (1648, 1648), (1750, 1757), (1759, 1768), (1770, 1773),
     (1807, 1807), (1809, 1809), (1840, 1866), (1958, 1968), (2027, 2037), (2042, 2042),
     (2045, 2045), (2070, 2093), (2137, 2139), (2184, 2184), (2192, 2193), (2200, 2207),
     (2249, 2306), (2362, 2362), (2364, 2364), (2369, 2376), (2381, 2381), (2385, 2391),
     (2402, 2403), (2417, 2417), (2433, 2433), (2492, 2492), (2497, 2500), (2509, 2509),
     (2530, 2531), (2558, 2558), (2561, 2562), (2620, 2620), (2625, 2626), (2631, 2632),
     (2635, 2637), (2641, 2641), (2672, 2673), (2677, 2677), (2689, 2690), (2748, 2748),
     (2753, 2757), (2759, 2760), (2765, 2765), (2786, 2787), (2810, 2815), (2817, 2817),
     (2876, 2876), (2879, 2879), (2881, 2884), (2893, 2893), (2901, 2902), (2914, 2915),
     (2946, 2946), (3008, 3008), (3021, 3021), (3072, 3072), (3076, 3076), (3132, 3132),
     (3134, 3136), (3142, 3144), (3146, 3149), (3157, 3158), (3170, 3171), (3201, 3201),
     (3260, 3260), (3263, 3263), (3270, 3270), (3276, 3277), (3298, 3299), (3328, 3329),
     (3387, 3388), (3393, 3396), (3405, 3405), (3426, 3427), (3457, 3457), (3530, 3530),
     (3538, 3540), (3542, 3542), (3633, 3633), (3636, 3642), (3654, 3662), (3761, 3761),
     (3764, 3772), (3782, 3782), (3784, 3789), (3864, 3865), (3893, 3893), (3895, 3895),
     (3897, 3897), (3953, 3966), (3968, 3972), (3974, 3975), (3981, 3991), (3993, 4028),
     (4038, 4038), (4141, 4144), (4146, 4151), (4153, 4154), (4157, 4158), (4184, 4185),
     (4190, 4192), (4209, 4212), (4226, 4226), (4229, 4230), (4237, 4237), (4253, 4253),
     (4348, 4348), (4957, 4959), (5906, 5908), (5938, 5939), (5970, 5971), (6002, 6003),
     (6068, 6069), (6071, 6077), (6086, 6086), (6089, 6099), (6103, 6103), (6109, 6109),
     (6155, 6159), (6211, 6211), (6277, 6278), (6313, 6313), (6432, 6434), (6439, 6440),
     (6450, 6450), (6457, 6459), (6679, 6680), (6683, 6683), (6742, 6742), (6744, 6750),
     (6752, 6752), (6754, 6754), (6757, 6764), (6771, 6780), (6783, 6783), (6823, 6823),
     (6832, 6862), (6912, 6915), (6964, 6964), (6966, 6970), (6972, 6972), (6978, 6978),
     (7019, 7027), (7040, 7041), (7074, 7077), (7080, 7081), (7083, 7085), (7142, 7142),
     (7144, 7145), (7149, 7149), (7151, 7153), (7212, 7219), (7222, 7223), (7288, 7293),
     (7376, 7378), (7380, 7392), (7394, 7400), (7405, 7405), (7412, 7412), (7416, 7417),
     (7468, 7530), (7544, 7544), (7579, 7679), (8125, 8125), (8127, 8129), (8141, 8143),
     (8157, 8159), (8173, 8175), (8189, 8190), (8203, 8207), (8216, 8217), (8228, 8228),
     (8231, 8231), (8234, 8238), (8288, 8292), (8294, 8303), (8305, 8305), (8319, 8319),
     (8336, 8348), (8400, 8432), (11388, 11389), (11503, 11505), (11631, 11631),
     (11647, 11647), (11744, 11775), (11823, 11823), (12293, 12293), (12330, 12333),
     (12337, 12341), (12347, 12347), (12441, 12446), (12540, 12542), (40981, 40981),
     (42232, 42237), (42508, 42508), (42607, 42610), (42612, 42621), (42623, 42623),
     (42652, 42655), (42736, 42737), (42752, 42785), (42864, 42864), (42888, 42890),
     (42994, 42996), (43000, 43001), (43010, 43010), (43014, 43014), (43019, 43019),
     (43045, 43046), (43052, 43052), (43204, 43205), (43232, 43249), (43263, 43263),
     (43302, 43309), (43335, 43345), (43392, 43394), (43443, 43443), (43446, 43449),
     (43452, 43453), (43471, 43471), (43493, 43494), (43561, 43566), (43569, 43570),
     (43573, 43574), (43587, 43587), (43596, 43596), (43632, 43632), (43644, 43644),
     (43696, 43696), (43698, 43700), (43703, 43704), (43710, 43711), (43713, 43713),
     (43741, 43741), (43756, 43757), (43763, 43764), (43766, 43766), (43867, 43871),
     (43881, 43883), (44005, 44005), (44008, 44008), (44013, 44013), (64286, 64286),
     (64434, 64450), (65024, 65039), (65043, 65043), (65056, 65071), (65106, 65106),
     (65109, 65109), (65279, 65279), (65287, 65287), (65294, 65294), (65306, 65306),
     (65342, 65342), (65344, 65344), (65392, 65392), (65438, 65439), (65507, 65507),
     (65529, 65531), (66045, 66045), (66272, 66272), (66422, 66426), (67456, 67461),
     (67463, 67504), (67506, 67514), (68097, 68099), (68101, 68102), (68108, 68111),
     (68152, 68154), (68159, 68159), (68325, 68326), (68900, 68903), (69291, 69292),
     (69446, 69456), (69506, 69509), (69633, 69633), (69688, 69702), (69744, 69744),
     (69747, 69748), (69759, 69761), (69811, 69814), (69817, 69818), (69821, 69821),
     (69826, 69826), (69837, 69837), (69888, 69890), (69927, 69931), (69933, 69940),
     (70003, 70003), (70016, 70017), (70070, 70078), (70089, 70092), (70095, 70095),
     (70191, 70193), (70196, 70196), (70198, 70199), (70206, 70206), (70367, 70367),
     (70371, 70378), (70400, 70401), (70459, 70460), (70464, 70464), (70502, 70508),
     (70512, 70516), (70712, 70719), (70722, 70724), (70726, 70726), (70750, 70750),
     (70835, 70840), (70842, 70842), (70847, 70848), (70850, 70851), (71090, 71093),
     (71100, 71101), (71103, 71104), (71132, 71133), (71219, 71226), (71229, 71229),
     (71231, 71232), (71339, 71339), (71341, 71341), (71344, 71349), (71351, 71351),
     (71453, 71455), (71458, 71461), (71463, 71467), (71727, 71735), (71737, 71738),
     (71995, 71996), (71998, 71998), (72003, 72003), (72148, 72151), (72154, 72155),
     (72160, 72160), (72193, 72202), (72243, 72248), (72251, 72254), (72263, 72263),
     (72273, 72278), (72281, 72283), (72330, 72342), (72344, 72345), (72752, 72758),
     (72760, 72765), (72767, 72767), (72850, 72871), (72874, 72880), (72882, 72883),
     (72885, 72886), (73009, 73014), (73018, 73018), (73020, 73021), (73023, 73029),
     (73031, 73031), (73104, 73105), (73109, 73109), (73111, 73111), (73459, 73460),
     (78896, 78904), (92912, 92916), (92976, 92982), (92992, 92995), (94031, 94031),
     (94095, 94111), (94176, 94177), (94179, 94180), (110576, 110579), (110581, 110587),
     (110589, 110590), (113821, 113822), (113824, 113827), (118528, 118573), (118576, 118598),
     (119143, 119145), (119155, 119170), (119173, 119179), (119210, 119213), (119362, 119364),
     (121344, 121398), (121403, 121452), (121461, 121461), (121476, 121476), (121499, 121503),
     (121505, 121519), (122880, 122886), (122888, 122904), (122907, 122913), (122915, 122916),
     (122918, 122922), (123184, 123197), (123566, 123566), (123628, 123631), (125136, 125142),
     (125252, 125259), (127995, 127999), (917505, 917505), (917536, 917631), (917760, 917999)]"

definition casedRanges :: "(int \<times> int) list" where
  "casedRanges =
    [(65, 90), (97, 122), (170, 170), (181, 181), (186, 186), (192, 214), (216, 246),
     (248, 442), (444, 447), (452, 659), (661, 687), (880, 883), (886, 887), (891, 893),
     (895, 895), (902, 902), (904, 906), (908, 908), (910, 929), (931, 1013), (1015, 1153),
     (1162, 1327), (1329, 1366), (1376, 1416), (4256, 4293), (4295, 4295), (4301, 4301),
     (4304, 4346), (4349, 4351), (5024, 5109), (5112, 5117), (7296, 7304), (7312, 7354),
     (7357, 7359), (7424, 7467), (7531, 7543), (7545, 7578), (7680, 7957), (7960, 7965),
     (7968, 8005), (8008, 8013), (8016, 8023), (8025, 8025), (8027, 8027), (8029, 8029),
     (8031, 8061), (8064, 8116), (8118, 8124), (8126, 8126), (8130, 8132), (8134, 8140),
     (8144, 8147), (8150, 8155), (8160, 8172), (8178, 8180), (8182, 8188), (8450, 8450),
     (8455, 8455), (8458, 8467), (8469, 8469), (8473, 8477), (8484, 8484), (8486, 8486),
     (8488, 8488), (8490, 8493), (8495, 8500), (8505, 8505), (8508, 8511), (8517, 8521),
     (8526, 8526), (8544, 8575), (8579, 8580), (9398, 9449), (11264, 11387), (11390, 11492),
     (11499, 11502), (11506, 11507), (11520, 11557), (11559, 11559), (11565, 11565),
     (42560, 42605), (42624, 42651), (42786, 42863), (42865, 42887), (42891, 42894),
     (42896, 42954), (42960, 42961), (42963, 42963), (42965, 42969), (42997, 42998),
     (43002, 43002), (43824, 43866), (43872, 43880), (43888, 43967), (64256, 64262),
     (64275, 64279), (65313, 65338), (65345, 65370), (66560, 66639), (66736, 66771),
     (66776, 66811), (66928, 66938), (66940, 66954), (66956, 66962), (66964, 66965),
     (66967, 66977), (66979, 66993), (66995, 67001), (67003, 67004), (68736, 68786),
     (68800, 68850), (71840, 71903), (93760, 93823), (119808, 119892), (119894, 119964),
     (119966, 119967), (119970, 119970), (119973, 119974), (119977, 119980), (119982, 119993),
     (119995, 119995), (119997, 120003), (120005, 120069), (120071, 120074), (120077, 120084),
     (120086, 120092), (120094, 120121), (120123, 120126), (120128, 120132), (120134, 120134),
     (120138, 120144), (120146, 120485), (120488, 120512), (120514, 120538), (120540, 120570),
     (120572, 120596), (120598, 120628), (120630, 120654), (120656, 120686), (120688, 120712),
     (120714, 120744), (120746, 120770), (120772, 120779), (122624, 122633), (122635, 122654),
     (125184, 125251), (127280, 127305), (127312, 127337), (127344, 127369)]"

definition inRanges :: "(int \<times> int) list \<Rightarrow> int \<Rightarrow> bool" where
  "inRanges rs c = list_ex (\<lambda>(a, b). a \<le> c \<and> c \<le> b) rs"

definition caseIgnorable :: "int \<Rightarrow> bool" where
  "caseIgnorable c = inRanges caseIgnorableRanges c"

definition cased :: "int \<Rightarrow> bool" where
  "cased c = inRanges casedRanges c"

fun toPoints :: "jsstring \<Rightarrow> int list" where
  "toPoints (h # l # s) =
     (if 55296 \<le> h \<and> h \<le> 56319 \<and> 56320 \<le> l \<and> l \<le> 57343
      then (65536 + (h - 55296) * 1024 + (l - 56320)) # toPoints s
      else h # toPoints (l # s))"
| "toPoints s = s"

definition fromPoint :: "int \<Rightarrow> jsstring" where
  "fromPoint c =
     (if c < 65536 then [c] else [55296 + (c - 65536) div 1024, 56320 + (c - 65536) mod 1024])"

text \<open>The lower case of a code point other than U+0130 and the capital sigma.\<close>

definition lowerPoint :: "int \<Rightarrow> int" where
  "lowerPoint c =
     (if c < 128 then (if 65 \<le> c \<and> c \<le> 90 then c + 32 else c)
      else (case find (\<lambda>(a, b, k, d). a \<le> c \<and> c \<le> b \<and> (c - a) mod k = 0) lowerRanges of
              None \<Rightarrow> c
            | Some (a, b, k, d) \<Rightarrow> c + d))"

text \<open>
  A capital sigma is a final one where a cased letter comes before it, and none after it,
  the code points that are skipped set aside; \<open>prev\<close> holds the code points before it,
  the nearest first.
\<close>

definition finalSigma :: "int list \<Rightarrow> int list \<Rightarrow> bool" where
  "finalSigma prev rest =
     ((case dropWhile caseIgnorable prev of [] \<Rightarrow> False | p # _ \<Rightarrow> cased p)
      \<and> (case dropWhile caseIgnorable rest of [] \<Rightarrow> True | n # _ \<Rightarrow> \<not> cased n))"

text \<open>
  U+0130 becomes \<open>i\<close> followed by U+0307, a final capital sigma U+03A3 becomes U+03C2
  and any other one U+03C3.
\<close>

fun lowerFrom :: "int list \<Rightarrow> int list \<Rightarrow> jsstring" where
  "lowerFrom prev [] = []"
| "lowerFrom prev (c # cs) =
     (if c = 931 then (if finalSigma prev cs then [962] else [963])
      else if c = 304 then [105, 775]
      else fromPoint (lowerPoint c))
     @ lowerFrom (c # prev) cs"

definition toLowerCase :: "jsstring \<Rightarrow> jsstring" where
  "toLowerCase s = lowerFrom [] (toPoints s)"

fun isPrefix :: "jsstring \<Rightarrow> jsstring \<Rightarrow> bool" where
  "isPrefix [] s = True"
| "isPrefix (a # as) [] = False"
| "isPrefix (a # as) (x # xs) = (a = x \<and> isPrefix as xs)"

text \<open>\<open>s.includes(sub)\<close>\<close>

fun includesStr :: "jsstring \<Rightarrow> jsstring \<Rightarrow> bool" where
  "includesStr [] sub = (sub = [])"
| "includesStr (x # xs) sub = (if isPrefix sub (x # xs) then True else includesStr xs sub)"

text \<open>\<open>s.split("\n")\<close>: the pieces between line feeds; the empty string gives one empty piece.\<close>

fun splitLines :: "jsstring \<Rightarrow> jsstring list" where
  "splitLines [] = [[]]"
| "splitLines (x # xs) =
     (if x = 10 then [] # splitLines xs
      else (case splitLines xs of l # ls \<Rightarrow> (x # l) # ls | [] \<Rightarrow> [[x]]))"

text \<open>\<open>xs.join(sep)\<close>\<close>

fun join :: "jsstring \<Rightarrow> jsstring list \<Rightarrow> jsstring" where
  "join sep [] = []"
| "join sep [x] = x"
| "join sep (x # y # ys) = x @ sep @ join sep (y # ys)"

section \<open>Regular expressions\<close>

text \<open>
  The regular expressions of the source, as syntax trees, and a backtracking matcher that
  follows the priorities of the ECMAScript matcher: the left alternative first, greedy
  repetition longest first, an optional group taken first. A repetition is only ever
  applied to a character class in this program. None of the expressions carries the
  \<open>u\<close> flag, so \<open>\w\<close>, \<open>\d\<close> and \<open>\b\<close> are ASCII, and under the \<open>i\<close> flag a
  code unit is compared by its upper case, which for a code unit outside ASCII is never
  an ASCII letter.
\<close>

datatype cc = CLit int | CDigit | CWord | CSpace

datatype cls = Cls "cc list" | NotCls "cc list"

datatype rx =
    Lit jsstring
  | One cls
  | Dot
  | Seq rx rx
  | Alt rx rx
  | Opt rx
  | Many cls nat
  | WordB
  | Bol
  | Eol

text \<open>An ASCII literal of the source, and an ASCII character in a class.\<close>

definition Str :: "string \<Rightarrow> rx" where
  "Str s = Lit (js s)"

definition CChr :: "char \<Rightarrow> cc" where
  "CChr c = CLit (of_char c)"

text \<open>A position in the input: the code unit before it (none at the start) and the rest.\<close>

type_synonym pos = "int option \<times> jsstring"

definition canon :: "bool \<Rightarrow> int \<Rightarrow> int" where
  "canon ci c = (if ci \<and> 97 \<le> c \<and> c \<le> 122 then c - 32 else c)"

fun inCc :: "bool \<Rightarrow> cc \<Rightarrow> int \<Rightarrow> bool" where
  "inCc ci (CLit a) c = (canon ci a = canon ci c)"
| "inCc ci CDigit c = isDigit c"
| "inCc ci CWord c = isWordChar c"
| "inCc ci CSpace c = isSpace c"

fun inCls :: "bool \<Rightarrow> cls \<Rightarrow> int \<Rightarrow> bool" where
  "inCls ci (Cls cs) c = list_ex (\<lambda>k. inCc ci k c) cs"
| "inCls ci (NotCls cs) c = (\<not> list_ex (\<lambda>k. inCc ci k c) cs)"

fun eat :: "bool \<Rightarrow> jsstring \<Rightarrow> pos \<Rightarrow> pos option" where
  "eat ci [] p = Some p"
| "eat ci (a # as) (p, []) = None"
| "eat ci (a # as) (p, x # xs) =
     (if canon ci a = canon ci x then eat ci as (Some x, xs) else None)"

text \<open>
  Greedy repetition of a class, at least \<open>n\<close> times: the positions after each admissible
  number of code units, the longest first.
\<close>

fun many :: "bool \<Rightarrow> cls \<Rightarrow> nat \<Rightarrow> pos \<Rightarrow> pos list" where
  "many ci c n (p, []) = (if n = 0 then [(p, [])] else [])"
| "many ci c n (p, x # xs) =
     (if inCls ci c x then many ci c (n - 1) (Some x, xs) else [])
     @ (if n = 0 then [(p, x # xs)] else [])"

definition wordBefore :: "pos \<Rightarrow> bool" where
  "wordBefore p = (case fst p of None \<Rightarrow> False | Some c \<Rightarrow> isWordChar c)"

definition wordAfter :: "pos \<Rightarrow> bool" where
  "wordAfter p = (case snd p of [] \<Rightarrow> False | c # _ \<Rightarrow> isWordChar c)"

text \<open>The end positions of the matches of an expression at a position, in priority order.\<close>

fun ends :: "bool \<Rightarrow> rx \<Rightarrow> pos \<Rightarrow> pos list" where
  "ends ci (Lit cs) p = (case eat ci cs p of None \<Rightarrow> [] | Some q \<Rightarrow> [q])"
| "ends ci (One c) p =
     (case snd p of [] \<Rightarrow> [] | x # xs \<Rightarrow> if inCls ci c x then [(Some x, xs)] else [])"
| "ends ci Dot p =
     (case snd p of [] \<Rightarrow> [] | x # xs \<Rightarrow> if isLineTerminator x then [] else [(Some x, xs)])"
| "ends ci (Seq a b) p = concat (map (ends ci b) (ends ci a p))"
| "ends ci (Alt a b) p = ends ci a p @ ends ci b p"
| "ends ci (Opt a) p = ends ci a p @ [p]"
| "ends ci (Many c n) p = many ci c n p"
| "ends ci WordB p = (if wordBefore p \<noteq> wordAfter p then [p] else [])"
| "ends ci Bol p = (if fst p = None then [p] else [])"
| "ends ci Eol p = (if snd p = [] then [p] else [])"

text \<open>The match the engine reports at a position: the first in priority order.\<close>

definition matchAt :: "bool \<Rightarrow> rx \<Rightarrow> pos \<Rightarrow> pos option" where
  "matchAt ci r p = (case ends ci r p of [] \<Rightarrow> None | e # _ \<Rightarrow> Some e)"

text \<open>\<open>regex.test(s)\<close>: a match at the leftmost position that has one.\<close>

fun testFrom :: "bool \<Rightarrow> rx \<Rightarrow> int option \<Rightarrow> jsstring \<Rightarrow> bool" where
  "testFrom ci r p [] = (case matchAt ci r (p, []) of None \<Rightarrow> False | Some e \<Rightarrow> True)"
| "testFrom ci r p (x # xs) =
     (case matchAt ci r (p, x # xs) of None \<Rightarrow> testFrom ci r (Some x) xs | Some e \<Rightarrow> True)"

definition test :: "bool \<Rightarrow> rx \<Rightarrow> jsstring \<Rightarrow> bool" where
  "test ci r s = testFrom ci r None s"

text \<open>
  \<open>s.match(regex)\<close> with the \<open>g\<close> flag: the matched substrings from left to right,
  each search starting where the last match ended, and one code unit further after an
  empty match. The result \<open>null\<close> of the source is the empty list here: the source only
  asks whether there is a result and how long it is.
\<close>

function matchAllFrom :: "bool \<Rightarrow> rx \<Rightarrow> int option \<Rightarrow> jsstring \<Rightarrow> jsstring list" where
  "matchAllFrom ci r p [] = (case matchAt ci r (p, []) of None \<Rightarrow> [] | Some e \<Rightarrow> [[]])"
| "matchAllFrom ci r p (x # xs) =
     (case matchAt ci r (p, x # xs) of
        None \<Rightarrow> matchAllFrom ci r (Some x) xs
      | Some e \<Rightarrow>
          if length (snd e) < length (x # xs)
          then take (length (x # xs) - length (snd e)) (x # xs) # matchAllFrom ci r (fst e) (snd e)
          else [] # matchAllFrom ci r (Some x) xs)"
  by pat_completeness auto
termination
  by (relation "measure (\<lambda>(ci, r, p, s). length s)") auto

definition matchAll :: "bool \<Rightarrow> rx \<Rightarrow> jsstring \<Rightarrow> jsstring list" where
  "matchAll ci r s = matchAllFrom ci r None s"

text \<open>\<open>s.replace(regex, rep)\<close> with the \<open>g\<close> flag and a replacement without \<open>$\<close>.\<close>

function replaceAllFrom :: "bool \<Rightarrow> rx \<Rightarrow> jsstring \<Rightarrow> int option \<Rightarrow> jsstring \<Rightarrow> jsstring" where
  "replaceAllFrom ci r rep p [] = (case matchAt ci r (p, []) of None \<Rightarrow> [] | Some e \<Rightarrow> rep)"
| "replaceAllFrom ci r rep p (x # xs) =
     (case matchAt ci r (p, x # xs) of
        None \<Rightarrow> x # replaceAllFrom ci r rep (Some x) xs
      | Some e \<Rightarrow>
          if length (snd e) < length (x # xs)
          then rep @ replaceAllFrom ci r rep (fst e) (snd e)
          else rep @ x # replaceAllFrom ci r rep (Some x) xs)"
  by pat_completeness auto
termination
  by (relation "measure (\<lambda>(ci, r, rep, p, s). length s)") auto

definition replaceAll :: "bool \<Rightarrow> rx \<Rightarrow> jsstring \<Rightarrow> jsstring \<Rightarrow> jsstring" where
  "replaceAll ci r rep s = replaceAllFrom ci r rep None s"

text \<open>\<open>s.replace(regex, rep)\<close> without the \<open>g\<close> flag: the leftmost match only.\<close>

fun replaceFirstFrom :: "bool \<Rightarrow> rx \<Rightarrow> jsstring \<Rightarrow> int option \<Rightarrow> jsstring \<Rightarrow> jsstring" where
  "replaceFirstFrom ci r rep p [] = (case matchAt ci r (p, []) of None \<Rightarrow> [] | Some e \<Rightarrow> rep)"
| "replaceFirstFrom ci r rep p (x # xs) =
     (case matchAt ci r (p, x # xs) of
        None \<Rightarrow> x # replaceFirstFrom ci r rep (Some x) xs
      | Some e \<Rightarrow> rep @ snd e)"

definition replaceFirst :: "bool \<Rightarrow> rx \<Rightarrow> jsstring \<Rightarrow> jsstring \<Rightarrow> jsstring" where
  "replaceFirst ci r rep s = replaceFirstFrom ci r rep None s"

text \<open>
  \<open>s.split(/\s+/)\<close>: the pieces between the maximal runs of white space. A run at the
  very start leaves an empty first piece, a run at the end an empty last piece, and the
  empty string gives one empty piece.
\<close>

fun splitSpacesFrom :: "bool \<Rightarrow> jsstring \<Rightarrow> jsstring list" where
  "splitSpacesFrom inRun [] = [[]]"
| "splitSpacesFrom inRun (x # xs) =
     (if isSpace x then (if inRun then splitSpacesFrom True xs else [] # splitSpacesFrom True xs)
      else (case splitSpacesFrom False xs of l # ls \<Rightarrow> (x # l) # ls | [] \<Rightarrow> [[x]]))"

definition splitSpaces :: "jsstring \<Rightarrow> jsstring list" where
  "splitSpaces s = splitSpacesFrom False s"

section \<open>Failure as a value\<close>

text \<open>
  JavaScript does not stop at an array read outside the bounds or at a division by zero:
  the read gives \<open>undefined\<close> and the division \<open>NaN\<close> or an infinity. Both are
  \<open>None\<close> here. Where the source supplies a default with \<open>||\<close> the model does the
  same with \<open>jsOr\<close>; where the source goes on to use the value (and would
  raise a \<open>TypeError\<close> on a method call, or print \<open>undefined\<close> or \<open>NaN\<close>), the
  function of the model returns \<open>None\<close>.
\<close>

definition nthOpt :: "'a list \<Rightarrow> nat \<Rightarrow> 'a option" where
  "nthOpt xs i = (if i < length xs then Some (xs ! i) else None)"

text \<open>\<open>a || b\<close> on strings: \<open>b\<close> where \<open>a\<close> is \<open>undefined\<close> or empty.\<close>

definition jsOr :: "jsstring option \<Rightarrow> jsstring \<Rightarrow> jsstring" where
  "jsOr a b = (case a of None \<Rightarrow> b | Some s \<Rightarrow> if s = [] then b else s)"

text \<open>The number of binary digits of a positive integer.\<close>

function bitLength :: "int \<Rightarrow> nat" where
  "bitLength n = (if n \<le> 0 then 0 else Suc (bitLength (n div 2)))"
  by pat_completeness auto
termination
  by (relation "measure nat") auto

declare bitLength.simps [simp del]

text \<open>
  A JavaScript number is a double. The finite doubles are rationals, and every arithmetic
  operation of the source gives the exact result rounded to the nearest double, ties to
  the even significand. \<open>double\<close> is that rounding: the significand has 53 binary
  digits, the exponent goes down to the subnormal range. The upper end of the range
  is not modelled: the numbers of this program are counts, quotients of two counts and
  short sums and products of these, far below \<open>2^1024\<close>.
\<close>

text \<open>
  The quotient \<open>a / b\<close> of two integers, \<open>b\<close> positive, rounded to a double: with
  the exponent \<open>e\<close> such that \<open>2^52 \<le> \<bar>a / b\<bar> / 2^e < 2^53\<close>, and not below \<open>-1074\<close>,
  the quotient \<open>\<bar>a / b\<bar> / 2^e\<close> is \<open>num / den\<close>, and it is rounded to the nearest
  integer, a tie to the even one.
\<close>

definition roundQuotient :: "int \<Rightarrow> int \<Rightarrow> rat" where
  "roundQuotient a b =
     (if a = 0 then 0
      else (let e0 = int (bitLength \<bar>a\<bar>) - int (bitLength b) - 53;
                e1 = (if (\<bar>a\<bar> * 2 ^ nat (- e0)) div (b * 2 ^ nat e0) < 9007199254740992
                      then e0 else e0 + 1);
                e = max e1 (- 1074);
                num = \<bar>a\<bar> * 2 ^ nat (- e);
                den = b * 2 ^ nat e;
                f = num div den;
                r = num mod den;
                m = (if 2 * r < den then f else if den < 2 * r then f + 1
                     else if even f then f else f + 1)
            in Fract (sgn a * m * 2 ^ nat e) (2 ^ nat (- e))))"

definition double :: "rat \<Rightarrow> rat" where
  "double x = (case quotient_of x of (a, b) \<Rightarrow> roundQuotient a b)"

text \<open>\<open>a + b\<close>, \<open>a - b\<close>, \<open>a * b\<close> and \<open>a / b\<close> on doubles; a division by zero is \<open>None\<close>.\<close>

definition jsAdd :: "rat \<Rightarrow> rat \<Rightarrow> rat" where
  "jsAdd a b = double (a + b)"

definition jsSub :: "rat \<Rightarrow> rat \<Rightarrow> rat" where
  "jsSub a b = double (a - b)"

definition jsMul :: "rat \<Rightarrow> rat \<Rightarrow> rat" where
  "jsMul a b = double (a * b)"

definition jsDiv :: "rat \<Rightarrow> rat \<Rightarrow> rat option" where
  "jsDiv a b = (if b = 0 then None else Some (double (a / b)))"

text \<open>\<open>a % b\<close> on integers: the remainder has the sign of \<open>a\<close>; \<open>NaN\<close> for \<open>b = 0\<close>.\<close>

definition jsRem :: "int \<Rightarrow> int \<Rightarrow> int option" where
  "jsRem a b = (if b = 0 then None else Some (sgn a * (\<bar>a\<bar> mod \<bar>b\<bar>)))"

text \<open>\<open>Math.round\<close> of a double: the nearest integer, halves go up.\<close>

definition jsRound :: "rat \<Rightarrow> int" where
  "jsRound x = \<lfloor>x + 1 / 2\<rfloor>"

text \<open>A count written in decimal, as a template literal prints it.\<close>

function showNat :: "nat \<Rightarrow> jsstring" where
  "showNat n = (if n < 10 then [48 + int n] else showNat (n div 10) @ [48 + int (n mod 10)])"
  by pat_completeness auto
termination
  by (relation "measure id") auto

declare showNat.simps [simp del]

section \<open>The analyzer\<close>

text \<open>Helpers to write the expressions of the source.\<close>

fun alts :: "rx list \<Rightarrow> rx" where
  "alts [] = Lit []"
| "alts [r] = r"
| "alts (r # rs) = Alt r (alts rs)"

fun seqs :: "rx list \<Rightarrow> rx" where
  "seqs [] = Lit []"
| "seqs [r] = r"
| "seqs (r # rs) = Seq r (seqs rs)"

text \<open>\<open>\b(w1|w2|...)\b\<close>\<close>

definition wordsRx :: "rx list \<Rightarrow> rx" where
  "wordsRx ws = Seq WordB (Seq (alts ws) WordB)"

text \<open>
  \<open>\bword\b\<close>, as \<open>new RegExp\<close> builds it from a dictionary entry. Where the source
  escapes the entry first, every code unit of the entry stands for itself, as in \<open>Str\<close>.
\<close>

definition wordRx :: "string \<Rightarrow> rx" where
  "wordRx w = Seq WordB (Seq (Str w) WordB)"

text \<open>\<open>word\<close> followed by an optional \<open>s\<close>\<close>

definition plural :: "string \<Rightarrow> rx" where
  "plural w = Seq (Str w) (Opt (Str ''s''))"

definition digits1 :: rx where
  "digits1 = Many (Cls [CDigit]) 1"

definition spaces1 :: rx where
  "spaces1 = Many (Cls [CSpace]) 1"

definition spaces0 :: rx where
  "spaces0 = Many (Cls [CSpace]) 0"

definition BUZZWORDS :: "string list" where
  \<open>BUZZWORDS =
    [''synergy'', ''passionate'', ''dynamic'', ''self-starter'', ''hardworking'',
     ''team player'', ''results-driven'', ''go-getter'', ''proactive'', ''detail-oriented'',
     ''innovative'', ''guru'', ''ninja'', ''rockstar'', ''visionary'', ''thought leader'',
     ''motivated'', ''dedicated'', ''enthusiastic'', ''strategic thinker'', ''fast learner'',
     ''people person'', ''outside the box'', ''value-added'', ''best of breed'', ''paradigm'',
     ''leverage'', ''synergize'', ''holistic'', ''bandwidth'', ''deep dive'', ''circle back'',
     ''low-hanging fruit'', ''move the needle'', ''game-changer'', ''disruptive'',
     ''bleeding edge'', ''mission-critical'', ''action-oriented'', ''bottom line'',
     ''core competency'', ''empower'', ''stakeholder'', ''scalable'', ''ecosystem'', ''pivot'',
     ''agile mindset'', ''wear many hats'']\<close>

definition TECH_DICTIONARY :: "string list" where
  \<open>TECH_DICTIONARY =
    [''react'', ''angular'', ''vue'', ''svelte'', ''next.js'', ''nuxt'', ''gatsby'',
     ''node.js'', ''express'', ''fastify'', ''django'', ''flask'', ''rails'', ''spring'',
     ''typescript'', ''javascript'', ''python'', ''java'', ''c#'', ''c++'', ''go'', ''rust'',
     ''kotlin'', ''swift'', ''aws'', ''gcp'', ''azure'', ''docker'', ''kubernetes'',
     ''terraform'', ''ansible'', ''postgresql'', ''mysql'', ''mongodb'', ''redis'',
     ''elasticsearch'', ''dynamodb'', ''cassandra'', ''kafka'', ''rabbitmq'', ''graphql'',
     ''rest'', ''grpc'', ''websocket'', ''ci/cd'', ''jenkins'', ''github actions'',
     ''gitlab ci'', ''circleci'', ''react native'', ''flutter'', ''ionic'', ''.net'',
     ''laravel'', ''symfony'', ''tailwind'', ''sass'', ''less'', ''webpack'', ''vite'',
     ''rollup'', ''figma'', ''sketch'', ''photoshop'', ''illustrator'', ''sql'', ''nosql'',
     ''linux'', ''nginx'', ''apache'', ''git'', ''jira'', ''confluence'', ''slack'',
     ''machine learning'', ''deep learning'', ''tensorflow'', ''pytorch'', ''scikit-learn'',
     ''pandas'', ''numpy'', ''spark'', ''hadoop'', ''airflow'', ''dbt'', ''tableau'',
     ''power bi'', ''looker'', ''snowflake'', ''bigquery'', ''redshift'', ''oauth'', ''jwt'',
     ''saml'', ''ldap'', ''openid'', ''microservices'', ''serverless'', ''lambda'', ''s3'',
     ''ec2'', ''cloudfront'']\<close>

definition SCALE_WORDS :: "string list" where
  \<open>SCALE_WORDS =
    [''million'', ''billion'', ''high-traffic'', ''distributed'', ''microservices'',
     ''latency'', ''throughput'', ''scalability'', ''concurrent'', ''petabyte'', ''terabyte'',
     ''real-time'', ''low-latency'', ''fault-tolerant'', ''load balancing'',
     ''horizontal scaling'', ''vertical scaling'', ''sharding'', ''replication'']\<close>

definition IMPACT_VERBS :: "string list" where
  \<open>IMPACT_VERBS =
    [''reduced'', ''increased'', ''improved'', ''boosted'', ''grew'', ''saved'', ''generated'',
     ''delivered'', ''achieved'', ''optimized'', ''accelerated'', ''streamlined'',
     ''automated'', ''eliminated'', ''decreased'', ''doubled'', ''tripled'', ''launched'',
     ''shipped'', ''deployed'', ''migrated'', ''designed'', ''architected'', ''built'',
     ''developed'', ''implemented'', ''created'', ''established'', ''led'', ''managed'',
     ''mentored'', ''coached'', ''trained'']\<close>

definition SHIPPING_VERBS :: "string list" where
  \<open>SHIPPING_VERBS =
    [''built'', ''shipped'', ''launched'', ''deployed'', ''released'', ''published'',
     ''created'', ''developed'']\<close>

definition VAGUE_PHRASES :: "string list" where
  \<open>VAGUE_PHRASES =
    [''responsible for'', ''duties included'', ''helped with'', ''assisted in'', ''worked on'',
     ''involved in'', ''participated in'', ''tasked with'', ''in charge of'',
     ''various tasks'', ''day-to-day'', ''miscellaneous'']\<close>

definition ROUTINE_ROLE_KEYWORDS :: "string list" where
  \<open>ROUTINE_ROLE_KEYWORDS =
    [''data entry'', ''receptionist'', ''filing'', ''administrative assistant'', ''cashier'',
     ''clerk'', ''customer service representative'', ''operator'']\<close>

definition OWNERSHIP_KEYWORDS :: "string list" where
  \<open>OWNERSHIP_KEYWORDS =
    [''led'', ''owned'', ''architected'', ''designed'', ''founded'', ''co-founded'',
     ''principal'', ''staff'', ''senior'', ''director'', ''vp'', ''head of'', ''chief'',
     ''manager'', ''tech lead'', ''team lead'']\<close>

definition ADAPTABILITY_KEYWORDS :: "string list" where
  \<open>ADAPTABILITY_KEYWORDS =
    [''learned'', ''migrated'', ''adopted'', ''transitioned'', ''pivoted'',
     ''cross-functional'', ''full-stack'', ''multi-stack'', ''polyglot'', ''led adoption'',
     ''introduced'', ''pioneered'']\<close>

definition cleanText :: "jsstring \<Rightarrow> jsstring" where
  "cleanText text =
     trim (replaceAll False (Many (Cls [CLit 10]) 4) [10, 10, 10]
       (replaceAll False (Many (Cls [CLit 32]) 3) [32, 32]
         (replaceAll False (One (Cls [CLit 9])) [32]
           (replaceAll False (Lit [13, 10]) [10] text))))"

text \<open>The heading patterns, in the order in which the source's object lists them.\<close>

definition sectionHeaders :: "(string \<times> rx) list" where
  "sectionHeaders =
    [(''experience'', wordsRx [Str ''experience'', Str ''employment'', Str ''work history'',
        Str ''professional experience'', Str ''career'']),
     (''projects'', wordsRx [Str ''projects'', Str ''personal projects'', Str ''side projects'',
        Str ''portfolio'']),
     (''skills'', wordsRx [Str ''skills'', Str ''technical skills'', Str ''technologies'',
        Str ''competencies'', Str ''proficiencies'', Str ''tech stack'']),
     (''education'', wordsRx [Str ''education'', Str ''academic'', Str ''degree'',
        Str ''university'', Str ''college'', Str ''school'']),
     (''summary'', wordsRx [Str ''summary'', Str ''objective'', Str ''profile'', Str ''about'',
        Str ''about me'', Str ''professional summary'', Str ''career objective'']),
     (''certifications'', wordsRx [plural ''certification'', plural ''license'',
        Str ''credentials'', plural ''accreditation''])]"

text \<open>The first heading pattern that a trimmed line shorter than 60 matches, if any.\<close>

definition matchHeader :: "jsstring \<Rightarrow> string option" where
  "matchHeader trimmed =
     map_option fst (find (\<lambda>(name, regex). test True regex trimmed \<and> length trimmed < 60)
       sectionHeaders)"

record SegState =
  sections :: "string \<rightharpoonup> jsstring"
  currentSection :: string
  currentContent :: "jsstring list"

text \<open>What the source does at a heading and after the last line: the lines gathered, if any, go under the current label.\<close>

definition commit :: "SegState \<Rightarrow> string \<rightharpoonup> jsstring" where
  "commit st =
     (if length (currentContent st) > 0
      then (sections st)(currentSection st \<mapsto> trim (join [10] (currentContent st)))
      else sections st)"

definition sectionStep :: "SegState \<Rightarrow> jsstring \<Rightarrow> SegState" where
  "sectionStep st line =
     (case matchHeader (trim line) of
        Some name \<Rightarrow> \<lparr>sections = commit st, currentSection = name, currentContent = []\<rparr>
      | None \<Rightarrow> st\<lparr>currentContent := currentContent st @ [line]\<rparr>)"

definition extractSections :: "jsstring \<Rightarrow> string \<rightharpoonup> jsstring" where
  "extractSections text =
     commit (foldl sectionStep
       \<lparr>sections = Map.empty, currentSection = ''preamble'', currentContent = []\<rparr>
       (splitLines text))"

text \<open>The bullet glyphs of the source: hyphen, U+2022, asterisk, U+25BA, U+25AA, U+25B8, U+25E6, U+2023.\<close>

definition bulletGlyphs :: "cc list" where
  "bulletGlyphs = [CChr CHR ''-'', CLit 8226, CChr CHR ''*'', CLit 9658, CLit 9642, CLit 9656,
     CLit 9702, CLit 8227]"

definition isBulletLine :: "jsstring \<Rightarrow> bool" where
  "isBulletLine trimmed =
     (test False (seqs [Bol, One (Cls bulletGlyphs), spaces1]) trimmed
      \<or> test False (seqs [Bol, digits1, One (Cls [CChr CHR ''.'', CChr CHR '')'']), spaces1]) trimmed)"

definition stripMarker :: "jsstring \<Rightarrow> jsstring" where
  "stripMarker trimmed =
     trim (replaceFirst False
       (Seq Bol (Many (Cls (bulletGlyphs @ [CDigit, CChr CHR ''.'', CChr CHR '')'', CSpace])) 1))
       [] trimmed)"

fun bulletsOf :: "jsstring list \<Rightarrow> jsstring list" where
  "bulletsOf [] = []"
| "bulletsOf (line # rest) =
     (let trimmed = trim line in
      if isBulletLine trimmed
      then (let cleaned = stripMarker trimmed in
            if length cleaned > 5 then cleaned # bulletsOf rest else bulletsOf rest)
      else bulletsOf rest)"

definition extractBullets :: "jsstring \<Rightarrow> jsstring list" where
  "extractBullets text = bulletsOf (splitLines text)"

text \<open>The six expressions of \<open>countMetrics\<close> with their flags, then the impact pattern.\<close>

definition metricPatterns :: "(bool \<times> rx) list" where
  "metricPatterns =
    [(False, Seq digits1 (Str ''%'')),
     (False, Seq (Str ''$'') (Many (Cls [CDigit, CChr CHR '','']) 1)),
     (False, seqs [digits1, alts [Str ''ms'', Str ''s'', Str ''sec'', plural ''min'',
        plural ''hour'', plural ''day''], WordB]),
     (True, seqs [digits1, alts [Str ''k'', Str ''m'', Str ''b''], WordB]),
     (True, seqs [digits1, Str ''x'', WordB]),
     (True, seqs [One (Cls [CDigit]), Many (Cls [CDigit, CChr CHR '','']) 0, Opt (Str ''+''),
        spaces0, alts [plural ''user'', plural ''customer'', plural ''client'',
        plural ''transaction'', plural ''request'', plural ''download'']])]"

definition impactPattern :: rx where
  "impactPattern =
     seqs [alts [Str ''reduced'', Str ''increased'', Str ''improved'', Str ''boosted'',
        Str ''grew'', Str ''saved'', Str ''generated'', Str ''optimized''],
       spaces1, Many (Cls [CWord]) 1, spaces1, Opt (Seq (Str ''by'') spaces1),
       One (Cls [CDigit])]"

definition countMetrics :: "jsstring \<Rightarrow> nat" where
  "countMetrics text =
     foldl (\<lambda>count (ci, p). count + length (matchAll ci p text)) 0 metricPatterns
     + length (matchAll True impactPattern text)"

definition urlPattern :: rx where
  "urlPattern = seqs [Str ''http'', Opt (Str ''s''), Str ''://'',
     Many (NotCls [CSpace, CChr CHR '')'']) 1]"

definition countLinks :: "jsstring \<Rightarrow> nat" where
  "countLinks text = length (matchAll True urlPattern text)"

text \<open>The dictionary entries that occur in the lower-cased text, in dictionary order.\<close>

definition containedIn :: "jsstring \<Rightarrow> string list \<Rightarrow> jsstring list" where
  "containedIn lower dict = map js (filter (\<lambda>w. includesStr lower (js w)) dict)"

text \<open>The dictionary entries that occur as whole words, in dictionary order.\<close>

definition wordsIn :: "jsstring \<Rightarrow> string list \<Rightarrow> jsstring list" where
  "wordsIn s dict = map js (filter (\<lambda>w. test True (wordRx w) s) dict)"

record BuzzResult =
  hits :: nat
  found :: "jsstring list"

definition detectBuzzwords :: "jsstring \<Rightarrow> BuzzResult" where
  "detectBuzzwords text =
     (let found = containedIn (toLowerCase text) BUZZWORDS
      in \<lparr>hits = length found, found = found\<rparr>)"

text \<open>\<open>[...new Set(found)]\<close>: the first occurrence of every entry is kept.\<close>

definition uniq :: "'a list \<Rightarrow> 'a list" where
  "uniq xs = rev (remdups (rev xs))"

definition detectTechStack :: "jsstring \<Rightarrow> jsstring list" where
  "detectTechStack text = uniq (wordsIn (toLowerCase text) TECH_DICTIONARY)"

definition detectScaleWords :: "jsstring \<Rightarrow> jsstring list" where
  "detectScaleWords text = containedIn (toLowerCase text) SCALE_WORDS"

definition detectVaguePhrases :: "jsstring \<Rightarrow> jsstring list" where
  "detectVaguePhrases text = containedIn (toLowerCase text) VAGUE_PHRASES"

definition detectImpactVerbs :: "jsstring \<Rightarrow> jsstring list" where
  "detectImpactVerbs text = wordsIn (toLowerCase text) IMPACT_VERBS"

text \<open>\<open>x | 0\<close> and \<open>x << 5\<close>: the result wraps to a signed 32-bit integer.\<close>

definition toInt32 :: "int \<Rightarrow> int" where
  "toInt32 x = (x + 2147483648) mod 4294967296 - 2147483648"

definition simpleHash :: "jsstring \<Rightarrow> int" where
  "simpleHash str =
     \<bar>foldl (\<lambda>hash char. toInt32 ((toInt32 (hash * 32) - hash) + char)) 0 str\<bar>"

text \<open>The words: the non-empty pieces between runs of white space.\<close>

definition wordsOf :: "jsstring \<Rightarrow> jsstring list" where
  "wordsOf text = filter (\<lambda>w. length w > 0) (splitSpaces text)"

subsection \<open>Scoring\<close>

text \<open>
  The scores are JavaScript numbers, that is doubles. Sums, differences and products of
  integers below \<open>2^53\<close> are exact and are written with the plain operators; every
  operation that can meet a fraction is one of \<open>jsAdd\<close>, \<open>jsSub\<close>, \<open>jsMul\<close>
  and \<open>jsDiv\<close>, and a decimal literal of the source that is not a double, such as
  \<open>0.2\<close>, is the double next to it.
\<close>

record BreakdownItem =
  name :: jsstring
  score :: rat
  note' :: jsstring

record DetectedInfo =
  wordCount :: nat
  bulletCount :: nat
  metricCount :: nat
  linkCount :: nat
  hasProjects :: bool
  hasExperience :: bool
  hasSkills :: bool
  hasEducation :: bool

record AnalyzeResponse =
  score :: int
  label :: jsstring
  summary :: jsstring
  breakdown :: "BreakdownItem list"
  strengths :: "jsstring list"
  redFlags :: "jsstring list"
  detected :: DetectedInfo
  disclaimers :: "jsstring list"

text \<open>\<open>!!sections.name\<close>: the key is there and its text is not empty.\<close>

definition present :: "jsstring option \<Rightarrow> bool" where
  "present v = (case v of None \<Rightarrow> False | Some s \<Rightarrow> s \<noteq> [])"

text \<open>\<open>Math.max(0, Math.min(100, x))\<close>\<close>

definition clamp100 :: "rat \<Rightarrow> rat" where
  "clamp100 x = max 0 (min 100 x)"

text \<open>\<open>dict.some((k) => new RegExp(`\\b${k}\\b`, "i").test(s))\<close>\<close>

definition someWord :: "jsstring \<Rightarrow> string list \<Rightarrow> bool" where
  "someWord s dict = list_ex (\<lambda>k. test True (wordRx k) s) dict"

definition websitePattern :: rx where
  "websitePattern = alts [Str ''portfolio'', Str ''.dev'', Str ''.io'', Str ''.com/~'',
     seqs [Str ''personal'', spaces0, Str ''website'']]"

definition roleSusceptibilityOf :: "bool \<Rightarrow> bool \<Rightarrow> nat \<Rightarrow> nat \<Rightarrow> rat" where
  "roleSusceptibilityOf hasRoutineRoleSignals hasOwnershipSignals nVague nImpactVerbs =
     clamp100 (50
       + (if hasRoutineRoleSignals then 20 else 0)
       - (if hasOwnershipSignals then 15 else 0)
       + (if nVague > 3 then 10 else 0)
       - (if nImpactVerbs > 5 then 10 else 0))"

definition proofOfImpactOf :: "nat \<Rightarrow> nat \<Rightarrow> nat \<Rightarrow> rat option" where
  "proofOfImpactOf nMetrics nBullets nImpactVerbs =
     do {
       fromRatio \<leftarrow> (if nBullets > 0
          then do {
            metricRatio \<leftarrow> jsDiv (of_nat nMetrics) (of_nat nBullets);
            Some (min 40 (jsMul metricRatio 50))
          }
          else Some 0);
       Some (clamp100 (jsAdd (jsAdd (jsAdd (jsAdd 20 fromRatio)
           (if nImpactVerbs > 3 then 15 else 0))
           (if nImpactVerbs > 7 then 10 else 0))
           (if nMetrics > 5 then 10 else 0)))
     }"

definition differentiationOf :: "nat \<Rightarrow> nat \<Rightarrow> bool \<Rightarrow> rat" where
  "differentiationOf nTech nScale hasCertifications =
     clamp100 (15 + min 35 (of_nat nTech * 3)
       + (if nScale > 0 then 15 else 0)
       + (if nScale > 3 then 10 else 0)
       + (if nTech > 10 then 10 else 0)
       + (if hasCertifications then 5 else 0))"

definition portfolioSignalsOf :: "bool \<Rightarrow> bool \<Rightarrow> bool \<Rightarrow> bool \<Rightarrow> nat \<Rightarrow> rat" where
  "portfolioSignalsOf hasGitHubLink hasWebsiteLink hasProjects' hasShippingVerbs nLinks =
     clamp100 (10
       + (if hasGitHubLink then 20 else 0)
       + (if hasWebsiteLink then 15 else 0)
       + (if hasProjects' then 20 else 0)
       + (if hasShippingVerbs then 15 else 0)
       + (if nLinks > 2 then 10 else 0))"

definition clarityOf :: "nat \<Rightarrow> rat \<Rightarrow> nat \<Rightarrow> nat \<Rightarrow> nat \<Rightarrow> nat \<Rightarrow> rat" where
  "clarityOf presentSections buzzwordDensity nLong nShort nBullets nVague =
     clamp100 (40 + of_nat presentSections * 8
       - (if buzzwordDensity > double (1 / 50) then 15 else 0)
       - (if buzzwordDensity > double (1 / 25) then 10 else 0)
       - (if nLong > 3 then 10 else 0)
       - (if of_nat nShort > of_nat nBullets * (1 / 2 :: rat) \<and> nBullets > 3 then 10 else 0)
       - (if nVague > 2 then 10 else 0)
       + (if nVague = 0 \<and> nBullets > 3 then 10 else 0))"

definition adaptabilityOf :: "bool \<Rightarrow> nat \<Rightarrow> nat \<Rightarrow> rat" where
  "adaptabilityOf hasAdaptabilitySignals nTech nScale =
     clamp100 (20
       + (if hasAdaptabilitySignals then 25 else 0)
       + (if nTech > 5 then 20 else 0)
       + (if nTech > 10 then 10 else 0)
       + (if nScale > 0 then 10 else 0))"

definition breakdownOf :: "rat \<Rightarrow> rat \<Rightarrow> rat \<Rightarrow> rat \<Rightarrow> rat \<Rightarrow> rat \<Rightarrow> nat \<Rightarrow> BreakdownItem list" where
  "breakdownOf roleSusceptibility proofOfImpact differentiation portfolioSignals clarity
       adaptability nTech =
    [\<lparr>name = js ''Role Susceptibility'', score = roleSusceptibility,
      note' = (if roleSusceptibility > 60
         then js ''Your role description suggests tasks that could be automated''
         else if roleSusceptibility > 40
         then js ''Mixed signals - some unique ownership, some routine tasks''
         else js ''Strong ownership and leadership signals detected'')\<rparr>,
     \<lparr>name = js ''Proof of Impact'', score = proofOfImpact,
      note' = (if proofOfImpact < 30
         then js ''Very few quantified achievements - add numbers!''
         else if proofOfImpact < 60
         then js ''Some metrics found, but more data-backed results would help''
         else js ''Good use of quantified impact and action verbs'')\<rparr>,
     \<lparr>name = js ''Differentiation'', score = differentiation,
      note' = (if differentiation < 30
         then js ''Generic skill set - needs more specialized or advanced tech''
         else if differentiation < 60
         then showNat nTech @ js '' technologies detected - consider highlighting advanced skills''
         else js ''Strong tech depth with '' @ showNat nTech
           @ js '' technologies and scale indicators'')\<rparr>,
     \<lparr>name = js ''Portfolio & Shipping Signals'', score = portfolioSignals,
      note' = (if portfolioSignals < 30
         then js ''No links, projects, or evidence of shipping found''
         else if portfolioSignals < 60
         then js ''Some signals but missing GitHub/portfolio links or projects section''
         else js ''Good evidence of building and shipping real work'')\<rparr>,
     \<lparr>name = js ''Clarity & Structure'', score = clarity,
      note' = (if clarity < 40
         then js ''Missing key sections, high buzzword density, or unclear formatting''
         else if clarity < 70
         then js ''Decent structure with room for improvement in conciseness''
         else js ''Well-organized with clear, readable sections'')\<rparr>,
     \<lparr>name = js ''Adaptability Signals'', score = adaptability,
      note' = (if adaptability < 30
         then js ''No signals of learning new tech or cross-functional work''
         else if adaptability < 60
         then js ''Some adaptability signals detected''
         else js ''Strong signals of continuous learning and adaptation'')\<rparr>]"

text \<open>\<open>[0.2, 0.25, 0.15, 0.15, 0.15, 0.1]\<close>\<close>

definition weights :: "rat list" where
  "weights = [double (1 / 5), 1 / 4, double (3 / 20), double (3 / 20), double (3 / 20),
     double (1 / 10)]"

text \<open>\<open>scores.reduce((sum, s, i) => sum + s * weights[i], 0)\<close>\<close>

fun weightedFrom :: "rat \<Rightarrow> nat \<Rightarrow> rat list \<Rightarrow> rat option" where
  "weightedFrom acc i [] = Some acc"
| "weightedFrom acc i (s # ss) =
     (case nthOpt weights i of
        None \<Rightarrow> None
      | Some w \<Rightarrow> weightedFrom (jsAdd acc (jsMul s w)) (Suc i) ss)"

text \<open>\<open>Math.max(1, Math.min(10, Math.ceil(weightedAvg / 10)))\<close>\<close>

definition riskScoreOf :: "rat \<Rightarrow> int" where
  "riskScoreOf weightedAvg = max 1 (min 10 \<lceil>double (weightedAvg / 10)\<rceil>)"

definition labelOf :: "int \<Rightarrow> jsstring" where
  "labelOf invertedRisk =
     (if invertedRisk \<le> 3 then js ''High Risk''
      else if invertedRisk \<le> 6 then js ''Medium Risk''
      else js ''Low Risk'')"

definition strengthsOf ::
  "nat \<Rightarrow> nat \<Rightarrow> bool \<Rightarrow> bool \<Rightarrow> bool \<Rightarrow> nat \<Rightarrow> bool \<Rightarrow> bool \<Rightarrow> nat \<Rightarrow> bool \<Rightarrow> nat
    \<Rightarrow> jsstring list" where
  "strengthsOf nMetrics nTech hasProjects' hasGitHubLink hasWebsiteLink nImpactVerbs
       hasOwnershipSignals hasAdaptabilitySignals presentSections hasCertifications nScale =
     (let strengths' =
        (if nMetrics > 3 then [js ''Quantified achievements with specific metrics''] else [])
        @ (if nTech > 8
           then [js ''Diverse tech stack ('' @ showNat nTech @ js '' technologies)''] else [])
        @ (if hasProjects' then [js ''Dedicated projects section showing initiative''] else [])
        @ (if hasGitHubLink \<or> hasWebsiteLink
           then [js ''Links to portfolio or code samples''] else [])
        @ (if nImpactVerbs > 5 then [js ''Strong action verbs throughout''] else [])
        @ (if hasOwnershipSignals then [js ''Evidence of leadership and ownership''] else [])
        @ (if hasAdaptabilitySignals then [js ''Signals of adaptability and growth''] else [])
        @ (if presentSections \<ge> 4
           then [js ''Complete resume structure with all key sections''] else [])
        @ (if hasCertifications then [js ''Professional certifications listed''] else [])
        @ (if nScale > 0 then [js ''Experience at scale mentioned''] else [])
      in if length strengths' = 0
         then strengths' @ [js ''Resume text was provided for analysis'']
         else strengths')"

definition redFlagsOf ::
  "nat \<Rightarrow> bool \<Rightarrow> bool \<Rightarrow> BuzzResult \<Rightarrow> jsstring list \<Rightarrow> bool \<Rightarrow> bool \<Rightarrow> bool \<Rightarrow> nat \<Rightarrow> nat
    \<Rightarrow> nat \<Rightarrow> nat \<Rightarrow> jsstring list option" where
  \<open>redFlagsOf nMetrics hasProjects' hasGitHubLink buzzwordResult vaguePhrases' hasExperience'
       hasSkills' hasSummary' nLong nShort nLinks nWords =
     do {
       vagueFlag \<leftarrow> (if length vaguePhrases' > 0
          then do {
            first \<leftarrow> nthOpt vaguePhrases' 0;
            Some [js ''Vague phrases detected: "'' @ first @ js ''"'']
          }
          else Some []);
       Some (
         (if nMetrics = 0
          then [js ''Zero quantified metrics - every bullet should have numbers''] else [])
         @ (if \<not> hasProjects' \<and> \<not> hasGitHubLink
            then [js ''No projects or code portfolio visible''] else [])
         @ (if hits buzzwordResult > 3
            then [js ''High buzzword density ('' @ join (js '', '') (take 3 (found buzzwordResult))
                  @ js ''...)''] else [])
         @ vagueFlag
         @ (if \<not> hasExperience' then [js ''No experience section found''] else [])
         @ (if \<not> hasSkills' then [js ''No dedicated skills section''] else [])
         @ (if \<not> hasSummary' then [js ''Missing summary/profile section''] else [])
         @ (if nLong > 2 then [js ''Several overly long bullet points''] else [])
         @ (if nShort > 3 then [js ''Too many short, unsubstantial bullet points''] else [])
         @ (if nLinks = 0 then [js ''No URLs or links found anywhere''] else [])
         @ (if nWords < 150 then [js ''Resume seems very short - too few details''] else [])
         @ (if nWords > 1200 then [js ''Resume may be too long - consider trimming''] else []))
     }\<close>

definition summaryOf :: "jsstring list \<Rightarrow> jsstring list \<Rightarrow> jsstring option" where
  \<open>summaryOf strengths' redFlags' =
     do {
       let strengthA = jsOr (nthOpt strengths' 0) (js ''some content'');
       let weakness = jsOr (nthOpt redFlags' 0) (js ''minor formatting issues'');
       topFix \<leftarrow> (if length redFlags' > 0
          then do {
            first \<leftarrow> nthOpt redFlags' 0;
            Some (replaceFirst False (seqs [Bol, Str ''missing'', spaces1]) (js ''adding a '')
              (replaceFirst False (seqs [Bol, Str ''zero'', spaces1]) (js ''adding '')
                (replaceFirst False (seqs [Bol, Str ''no'', spaces1]) (js ''adding '')
                  (toLowerCase first))))
          }
          else Some (js ''minor polishing''));
       second \<leftarrow> (if length strengths' > 1
          then do {
            s \<leftarrow> nthOpt strengths' 1;
            Some (js '' and '' @ toLowerCase s)
          }
          else Some []);
       Some (js ''Your resume shows '' @ toLowerCase strengthA @ second
         @ js '', but it\'s held back by '' @ toLowerCase weakness @ js ''. Fixing '' @ topFix
         @ js '' will immediately improve your score.'')
     }\<close>

definition analyzeResume :: "jsstring \<Rightarrow> AnalyzeResponse option" where
  \<open>analyzeResume text =
     (let cleaned = cleanText text;
          sections' = extractSections cleaned;
          bullets = extractBullets cleaned;
          words = wordsOf cleaned;
          wordCount' = length words;
          metricCount' = countMetrics cleaned;
          linkCount' = countLinks cleaned;
          buzzwordResult = detectBuzzwords cleaned;
          techStack = detectTechStack cleaned;
          scaleWords = detectScaleWords cleaned;
          vaguePhrases' = detectVaguePhrases cleaned;
          impactVerbs = detectImpactVerbs cleaned;
          hasExperience' = present (sections' ''experience'');
          hasProjects' = present (sections' ''projects'');
          hasSkills' = present (sections' ''skills'');
          hasEducation' = present (sections' ''education'');
          hasSummary' = present (sections' ''summary'');
          hasCertifications = present (sections' ''certifications'');
          hasShippingVerbs = someWord cleaned SHIPPING_VERBS;
          hasGitHubLink = test True (Str ''github.com'') cleaned;
          hasWebsiteLink = test True websitePattern cleaned;
          longBullets = filter (\<lambda>b. length (splitSpaces b) > 35) bullets;
          shortBullets = filter (\<lambda>b. length (splitSpaces b) < 6) bullets;
          lower = toLowerCase cleaned;
          hasRoutineRoleSignals = list_ex (\<lambda>k. includesStr lower (js k)) ROUTINE_ROLE_KEYWORDS;
          hasOwnershipSignals = someWord lower OWNERSHIP_KEYWORDS;
          hasAdaptabilitySignals = someWord lower ADAPTABILITY_KEYWORDS;
          presentSections =
            length (filter id [hasExperience', hasSkills', hasEducation', hasSummary'])
      in do {
        buzzwordDensity \<leftarrow> (if wordCount' > 0
           then jsDiv (of_nat (hits buzzwordResult)) (of_nat wordCount') else Some 0);
        let roleSusceptibility = roleSusceptibilityOf hasRoutineRoleSignals hasOwnershipSignals
              (length vaguePhrases') (length impactVerbs);
        proofOfImpact \<leftarrow> proofOfImpactOf metricCount' (length bullets) (length impactVerbs);
        let differentiation =
              differentiationOf (length techStack) (length scaleWords) hasCertifications;
        let portfolioSignals = portfolioSignalsOf hasGitHubLink hasWebsiteLink hasProjects'
              hasShippingVerbs linkCount';
        let clarity = clarityOf presentSections buzzwordDensity (length longBullets)
              (length shortBullets) (length bullets) (length vaguePhrases');
        let adaptability =
              adaptabilityOf hasAdaptabilitySignals (length techStack) (length scaleWords);
        let breakdown' = breakdownOf roleSusceptibility proofOfImpact differentiation
              portfolioSignals clarity adaptability (length techStack);
        weightedAvg \<leftarrow> weightedFrom 0 0 (map BreakdownItem.score breakdown');
        let riskScore = riskScoreOf weightedAvg;
        let invertedRisk = 11 - riskScore;
        let strengths' = strengthsOf metricCount' (length techStack) hasProjects' hasGitHubLink
              hasWebsiteLink (length impactVerbs) hasOwnershipSignals hasAdaptabilitySignals
              presentSections hasCertifications (length scaleWords);
        redFlags' \<leftarrow> redFlagsOf metricCount' hasProjects' hasGitHubLink buzzwordResult
              vaguePhrases' hasExperience' hasSkills' hasSummary' (length longBullets)
              (length shortBullets) linkCount' wordCount';
        summary' \<leftarrow> summaryOf strengths' redFlags';
        Some \<lparr>score = invertedRisk,
          label = labelOf invertedRisk,
          summary = summary',
          breakdown = map (\<lambda>b. b\<lparr>BreakdownItem.score :=
              of_int (jsRound (jsSub 100 (BreakdownItem.score b)))\<rparr>) breakdown',
          strengths = strengths',
          redFlags = redFlags',
          detected = \<lparr>wordCount = wordCount', bulletCount = length bullets,
            metricCount = metricCount', linkCount = linkCount', hasProjects = hasProjects',
            hasExperience = hasExperience', hasSkills = hasSkills',
            hasEducation = hasEducation'\<rparr>,
          disclaimers =
            [js ''This analysis is rule-based and does not use any AI/LLM.'',
             js ''Scores are computed from heuristic pattern matching and may not capture all nuances.'',
             js ''A high risk score does not mean you\'ll be replaced - it highlights areas to strengthen.'']\<rparr>
      })\<close>

section \<open>The roaster\<close>

datatype RoastLevel = light | medium | spicy

record RoastContext =
  text' :: jsstring
  wordCount :: nat
  bulletCount :: nat
  metricCount :: nat
  linkCount :: nat
  buzzwordCount :: nat
  buzzwords :: "jsstring list"
  vaguePhrases :: "jsstring list"
  techStack :: "jsstring list"
  hasProjects :: bool
  hasExperience :: bool
  hasSkills :: bool
  hasSummary :: bool
  hasEducation :: bool

record RoastTemplate =
  minLevel :: RoastLevel
  trigger :: "RoastContext \<Rightarrow> bool"
  category :: string
  lines :: "jsstring list"

record RoastResponse =
  title :: jsstring
  roastLines :: "jsstring list"
  bestLine :: jsstring
  redemption :: "jsstring list"
  boundaries :: "jsstring list"

fun LEVEL_ORDER :: "RoastLevel \<Rightarrow> nat" where
  "LEVEL_ORDER light = 0"
| "LEVEL_ORDER medium = 1"
| "LEVEL_ORDER spicy = 2"

text \<open>
  The metric patterns of the roaster and of the improver, which declare the same local
  list: percentages, dollar amounts and multipliers.
\<close>

definition simpleMetricPatterns :: "(bool \<times> rx) list" where
  "simpleMetricPatterns =
    [(False, Seq digits1 (Str ''%'')),
     (False, Seq (Str ''$'') (Many (Cls [CDigit, CChr CHR '','']) 1)),
     (True, seqs [digits1, Str ''x'', WordB])]"

definition countSimpleMetrics :: "jsstring \<Rightarrow> nat" where
  "countSimpleMetrics text =
     foldl (\<lambda>metricCount (ci, p). metricCount + length (matchAll ci p text)) 0
       simpleMetricPatterns"

definition projectsWord :: rx where
  "projectsWord = wordsRx [Str ''projects'', Str ''personal projects'', Str ''side projects'',
     Str ''portfolio'']"

definition skillsWord :: rx where
  "skillsWord = wordsRx [Str ''skills'', Str ''technical skills'', Str ''technologies'']"

definition summaryWord :: rx where
  "summaryWord = wordsRx [Str ''summary'', Str ''objective'', Str ''profile'', Str ''about'']"

definition buildContext :: "jsstring \<Rightarrow> RoastContext" where
  "buildContext text =
     (let words = wordsOf text;
          bullets = extractBullets text;
          buzzResult = detectBuzzwords text;
          vague = detectVaguePhrases text;
          tech = detectTechStack text;
          metricCount' = countSimpleMetrics text;
          linkCount' = length (matchAll True urlPattern text)
      in \<lparr>text' = text,
          wordCount = length words,
          bulletCount = length bullets,
          metricCount = metricCount',
          linkCount = linkCount',
          buzzwordCount = hits buzzResult,
          buzzwords = found buzzResult,
          vaguePhrases = vague,
          techStack = tech,
          hasProjects = test True projectsWord text,
          hasExperience = test True
            (wordsRx [Str ''experience'', Str ''employment'', Str ''work history'']) text,
          hasSkills = test True skillsWord text,
          hasSummary = test True summaryWord text,
          hasEducation = test True
            (wordsRx [Str ''education'', Str ''academic'', Str ''degree'', Str ''university''])
            text\<rparr>)"

definition TEMPLATES :: "RoastTemplate list" where
  \<open>TEMPLATES = [
    \<lparr>minLevel = light, trigger = (\<lambda>ctx. True), category = ''overall'', lines = map js
      [''I\'ve seen better resumes on the back of napkins at a Denny\'s.'',
       ''Your resume walked into the room and the ATS system literally threw up.'',
       ''This resume has the energy of a participation trophy.'',
       ''If resumes were movies, yours would go straight to DVD. In 2004.'',
       ''Your resume reads like a Wikipedia article nobody bothered to cite.'',
       ''This resume is the \'we have a candidate at home\' of resumes.'']\<rparr>,
    \<lparr>minLevel = medium, trigger = (\<lambda>ctx. True), category = ''overall'', lines = map js
      [''I\'ve read tax forms more exciting than this resume. And I\'ve read a LOT of tax forms.'',
       ''Your resume is proof that spell check doesn\'t fix boring.'',
       (''This resume needs less buzzwords and more \'I actually did something.'' @ [CHR 0x27]),
       ''If your resume were a meal, it\'d be unseasoned chicken breast on a paper plate.'',
       ''Your resume is like a horror movie - terrifying, but for all the wrong reasons.'',
       ''I showed this resume to a recruiter and they asked for combat pay.'']\<rparr>,
    \<lparr>minLevel = spicy, trigger = (\<lambda>ctx. True), category = ''overall'', lines = map js
      [''Holy hell, did you write this resume during a damn earthquake?'',
       ''This resume is so bad, LinkedIn would reject it as spam. And LinkedIn accepts EVERYTHING.'',
       ''Whoever told you this resume was good needs to be fired. Then rehired. Then fired again.'',
       (''Your resume hits different. And by \'different\' I mean \'like a truck full of red flags.'' @ [CHR 0x27]),
       ''This resume is the professional equivalent of showing up to a job interview in Crocs.'',
       ''Jesus Christ, I\'ve seen better-organized crime scenes than this resume.'']\<rparr>,
    \<lparr>minLevel = light, trigger = (\<lambda>ctx. RoastContext.metricCount ctx = 0), category = ''no_metrics'', lines = map js
      [''Not a single number in sight. Did you think this was a poetry reading?'',
       ''Your achievements section is just... vibes. Recruiters need numbers, not aura.'',
       ''Zero metrics. You could have made some up and it would\'ve been an improvement.'',
       ''Show me the numbers! Where are the damn numbers?!'']\<rparr>,
    \<lparr>minLevel = medium, trigger = (\<lambda>ctx. RoastContext.metricCount ctx = 0), category = ''no_metrics'', lines = map js
      [''You managed to write an entire resume without a single measurable achievement. That\'s actually impressive in the worst way.'',
       ''Not one percentage, not one dollar figure, not one \'increased by.\' What the hell did you do all day?'',
       ''The absence of metrics here is so complete, I\'m almost in awe. It\'s like you\'re allergic to accountability.'']\<rparr>,
    \<lparr>minLevel = spicy, trigger = (\<lambda>ctx. RoastContext.metricCount ctx = 0), category = ''no_metrics'', lines = map js
      [''Not a single goddamn metric. Did you just sit in a chair for three years and call it \'experience\'?'',
       ''Zero numbers. Your resume is basically a long-form excuse note from your career.'',
       ''The sheer audacity of submitting a resume with zero metrics. I respect the delusion.'']\<rparr>,
    \<lparr>minLevel = light, trigger = (\<lambda>ctx. buzzwordCount ctx > 3), category = ''buzzwords'', lines = map js
      [''"{BW1}" and "{BW2}" in the same resume? Corporate bingo is not a skill.'',
       ''Your resume reads like someone ate a LinkedIn post and threw up on a Word doc.'',
       ''If I had a dollar for every buzzword, I could afford to stop reading this.'']\<rparr>,
    \<lparr>minLevel = medium, trigger = (\<lambda>ctx. buzzwordCount ctx > 3), category = ''buzzwords'', lines = map js
      [''You crammed so many buzzwords in here, I thought this was a Fortune 500 press release.'',
       ''Somewhere, a recruiter just rolled their eyes so hard they saw their own brain.'',
       ''Your buzzword-to-substance ratio is genuinely concerning.'']\<rparr>,
    \<lparr>minLevel = spicy, trigger = (\<lambda>ctx. buzzwordCount ctx > 3), category = ''buzzwords'', lines = map js
      [''The buzzword density here could power a goddamn LinkedIn influencer for a month.'',
       (''I swear you just fed a thesaurus into a blender and hit \'resume mode.'' @ [CHR 0x27]),
       ''Calling yourself a \'dynamic synergy-driven thought leader\' isn\'t a personality. It\'s a cry for help.'']\<rparr>,
    \<lparr>minLevel = light, trigger = (\<lambda>ctx. length (vaguePhrases ctx) > 0), category = ''vague'', lines = map js
      [''"Responsible for" what, exactly? Existing? Showing up?'',
       ''Your bullet points have all the specificity of a horoscope.'',
       ''\'Assisted in various tasks\' - please, tell me less.'']\<rparr>,
    \<lparr>minLevel = medium, trigger = (\<lambda>ctx. length (vaguePhrases ctx) > 0), category = ''vague'', lines = map js
      [''\'Responsible for\' is doing a lot of heavy lifting here. Unfortunately, your resume isn\'t.'',
       ''These bullets are so vague, a psychic couldn\'t tell what you actually did.'',
       ''Your \'experience\' section reads like a really boring mystery novel with no resolution.'']\<rparr>,
    \<lparr>minLevel = spicy, trigger = (\<lambda>ctx. length (vaguePhrases ctx) > 0), category = ''vague'', lines = map js
      [''\'Responsible for various tasks.\' That\'s literally the most useless sentence in the English language.'',
       ''Your bullets are so vague, they\'d fail a background check on THEMSELVES.'',
       ''I\'ve seen fortune cookies with more detail than your work history.'']\<rparr>,
    \<lparr>minLevel = light, trigger = (\<lambda>ctx. RoastContext.bulletCount ctx < 5), category = ''weak_bullets'', lines = map js
      [''You have fewer bullet points than a grocery list for a college student.'',
       ''Your resume is lighter than a rice cake and twice as bland.'']\<rparr>,
    \<lparr>minLevel = medium, trigger = (\<lambda>ctx. RoastContext.bulletCount ctx < 5), category = ''weak_bullets'', lines = map js
      [(''This resume has fewer bullet points than my morning to-do list, and mine just says \'coffee.'' @ [CHR 0x27]),
       ''Did you run out of things to say or did you just give up?'']\<rparr>,
    \<lparr>minLevel = light, trigger = (\<lambda>ctx. \<not> RoastContext.hasProjects ctx), category = ''no_projects'', lines = map js
      [''No projects section? Do you even build things?'',
       ''Where are your side projects? Your experiments? Your \'look what I made\'?'']\<rparr>,
    \<lparr>minLevel = medium, trigger = (\<lambda>ctx. \<not> RoastContext.hasProjects ctx), category = ''no_projects'', lines = map js
      [''No projects section at all. What do you do outside of work, just stare at the ceiling?'',
       (''The absence of a projects section is deafening. It screams \'I only code when someone pays me.'' @ [CHR 0x27])]\<rparr>,
    \<lparr>minLevel = spicy, trigger = (\<lambda>ctx. \<not> RoastContext.hasProjects ctx), category = ''no_projects'', lines = map js
      [''No projects? No GitHub? No portfolio? What the hell have you been doing with your life?'',
       ''Not a single side project. Your passion for this career could be measured with a damn microscope.'']\<rparr>,
    \<lparr>minLevel = light, trigger = (\<lambda>ctx. length (techStack ctx) < 3), category = ''generic_skills'', lines = map js
      [''Your skills section is so generic, it could belong to literally anyone.'',
       ''Listing \'Microsoft Office\' as a skill in 2024 is certainly a choice.'']\<rparr>,
    \<lparr>minLevel = medium, trigger = (\<lambda>ctx. length (techStack ctx) < 3), category = ''generic_skills'', lines = map js
      [''Your skill list reads like the default settings on a new laptop.'',
       ''I\'ve seen more specialized skill sets on a Swiss Army knife.'']\<rparr>,
    \<lparr>minLevel = light, trigger = (\<lambda>ctx. \<not> hasSummary ctx \<and> RoastContext.wordCount ctx > 200), category = ''no_summary'', lines = map js
      [''No summary? You just threw us in without even a \'hello\'? Bold.'',
       ''Starting a resume without a summary is like starting a conversation mid-sentence.'']\<rparr>,
    \<lparr>minLevel = medium, trigger = (\<lambda>ctx. \<not> hasSummary ctx \<and> RoastContext.wordCount ctx > 200), category = ''no_summary'', lines = map js
      [''You skipped the summary section like it was leg day at the gym.'',
       ''No profile summary. The recruiter has to just... guess who you are? Cool cool cool.'']\<rparr>,
    \<lparr>minLevel = light, trigger = (\<lambda>ctx. RoastContext.linkCount ctx = 0), category = ''no_links'', lines = map js
      [''Not a single link? No GitHub, no LinkedIn, no portfolio. Mystery candidate.'',
       ''Zero URLs. In 2024. Are you in witness protection?'']\<rparr>,
    \<lparr>minLevel = medium, trigger = (\<lambda>ctx. RoastContext.linkCount ctx = 0), category = ''no_links'', lines = map js
      [''No links at all? Your online presence is as invisible as your resume is bland.'',
       ''Zero links. Either you don\'t have an internet presence or you\'re actively hiding from it.'']\<rparr>,
    \<lparr>minLevel = light, trigger = (\<lambda>ctx. RoastContext.wordCount ctx > 1000), category = ''too_long'', lines = map js
      [''This is a resume, not a novel. Brevity is the soul of getting hired.'',
       ''You wrote a small book. Recruiters spend 6 seconds. SIX. SECONDS.'']\<rparr>,
    \<lparr>minLevel = medium, trigger = (\<lambda>ctx. RoastContext.wordCount ctx > 1000), category = ''too_long'', lines = map js
      [''Your resume is so long, it needs a table of contents and an index.'',
       ''I started reading this resume yesterday and I\'m still not done.'']\<rparr>,
    \<lparr>minLevel = light, trigger = (\<lambda>ctx. RoastContext.wordCount ctx < 150 \<and> RoastContext.wordCount ctx > 30), category = ''too_short'', lines = map js
      [''This resume is shorter than a tweet thread. Actually, that\'s an insult to tweets.'',
       ''Is this your resume or your Tinder bio? Either way, swipe left.'']\<rparr>,
    \<lparr>minLevel = light, trigger = (\<lambda>ctx. True), category = ''finisher'', lines = map js
      [''Look, I\'m roasting because I care. Now go fix this thing.'',
       ''On the bright side, the only direction from here is up. WAY up.'',
       ''Your resume has potential. It\'s just buried under a mountain of mediocrity.'',
       ''The good news? You can fix all of this. The bad news? You need to fix all of this.'']\<rparr>,
    \<lparr>minLevel = medium, trigger = (\<lambda>ctx. True), category = ''finisher'', lines = map js
      [''I\'ve seen worse resumes. But I had to really think about it.'',
       ''This resume is fixable. But we\'re talking renovations, not a fresh coat of paint.'',
       ''Take this roast, learn from it, and come back stronger. Your resume sure as hell can\'t come back weaker.'']\<rparr>,
    \<lparr>minLevel = spicy, trigger = (\<lambda>ctx. True), category = ''finisher'', lines = map js
      [''Holy hell, what a ride. Go rewrite this entire damn thing and come back when you\'re serious.'',
       ''If your career was a stock, your resume just triggered a sell-off. Time to rally.'',
       ''I\'m done. My eyes need therapy. Go fix this abomination.'']\<rparr>]\<close>

subsection \<open>The seeded generator\<close>

text \<open>
  The seed and its products are JavaScript numbers, that is doubles. A product
  \<open>s * 1103515245\<close> with \<open>s\<close> near \<open>2^31\<close> exceeds \<open>2^53\<close> and is rounded to the
  nearest double, ties to even; \<open>fl\<close> is that rounding on integers.
\<close>

definition fl :: "int \<Rightarrow> int" where
  "fl n =
     (if \<bar>n\<bar> < 9007199254740992 then n
      else (let e = bitLength \<bar>n\<bar> - 53;
                q = \<bar>n\<bar> div 2 ^ e;
                r = \<bar>n\<bar> mod 2 ^ e;
                up = (2 * r > 2 ^ e \<or> (2 * r = 2 ^ e \<and> odd q))
            in sgn n * (if up then q + 1 else q) * 2 ^ e))"

text \<open>\<open>x & 0x7fffffff\<close>: the low 31 bits of \<open>x\<close> wrapped to 32 bits.\<close>

definition and31 :: "int \<Rightarrow> int" where
  "and31 x = toInt32 x mod 2147483648"

text \<open>\<open>(s * 1103515245 + 12345) & 0x7fffffff\<close>\<close>

definition lcg :: "int \<Rightarrow> int" where
  "lcg s = and31 (fl (fl (s * 1103515245) + 12345))"

fun shuffleFrom :: "nat \<Rightarrow> int \<Rightarrow> 'a list \<Rightarrow> 'a list option" where
  "shuffleFrom 0 s result = Some result"
| "shuffleFrom (Suc i) s result =
     (let s' = lcg s in
      do {
        j \<leftarrow> jsRem s' (int (Suc i) + 1);
        atI \<leftarrow> nthOpt result (Suc i);
        atJ \<leftarrow> nthOpt result (nat j);
        shuffleFrom i s' ((result[Suc i := atJ])[nat j := atI])
      })"

definition seededShuffle :: "'a list \<Rightarrow> int \<Rightarrow> 'a list option" where
  "seededShuffle arr seed = shuffleFrom (length arr - 1) seed arr"

definition seededPick :: "'a list \<Rightarrow> int \<Rightarrow> 'a option" where
  "seededPick arr seed =
     do {
       s \<leftarrow> jsRem (lcg seed) (int (length arr));
       nthOpt arr (nat s)
     }"

subsection \<open>Selection\<close>

text \<open>\<open>s.replace(pat, rep)\<close> with a string pattern: the first occurrence only.\<close>

fun replaceStr :: "jsstring \<Rightarrow> jsstring \<Rightarrow> jsstring \<Rightarrow> jsstring" where
  "replaceStr pat rep [] = (if pat = [] then rep else [])"
| "replaceStr pat rep (x # xs) =
     (if isPrefix pat (x # xs) then rep @ drop (length pat) (x # xs)
      else x # replaceStr pat rep xs)"

definition replacePlaceholders :: "jsstring \<Rightarrow> RoastContext \<Rightarrow> int \<Rightarrow> jsstring option" where
  "replacePlaceholders line ctx seed =
     (if length (buzzwords ctx) \<ge> 2
      then do {
        bw1 \<leftarrow> nthOpt (buzzwords ctx) 0;
        bw2 \<leftarrow> nthOpt (buzzwords ctx) 1;
        Some (replaceStr (js ''{BW2}'') bw2 (replaceStr (js ''{BW1}'') bw1 line))
      }
      else if length (buzzwords ctx) = 1
      then do {
        bw1 \<leftarrow> nthOpt (buzzwords ctx) 0;
        Some (replaceStr (js ''{BW2}'') (js ''synergy'') (replaceStr (js ''{BW1}'') bw1 line))
      }
      else Some (replaceStr (js ''{BW2}'') (js ''synergy'')
        (replaceStr (js ''{BW1}'') (js ''dynamic'') line)))"

text \<open>The first loop: up to two of the shuffled \<open>overall\<close> templates.\<close>

fun overallLoop ::
  "RoastContext \<Rightarrow> int \<Rightarrow> RoastTemplate list \<Rightarrow> nat list \<Rightarrow> jsstring list \<Rightarrow> jsstring list option" where
  "overallLoop ctx seed shuffledOverall [] roastLines' = Some roastLines'"
| "overallLoop ctx seed shuffledOverall (i # rest) roastLines' =
     do {
       template \<leftarrow> nthOpt shuffledOverall i;
       line \<leftarrow> seededPick (lines template) (seed + int i * 7);
       replaced \<leftarrow> replacePlaceholders line ctx (seed + int i);
       overallLoop ctx seed shuffledOverall rest (roastLines' @ [replaced])
     }"

text \<open>
  The second loop: one line for each category not used yet, in the shuffled order, until
  there are twelve lines. The state is the lines and the set of used categories.
\<close>

fun triggeredLoop ::
  "RoastContext \<Rightarrow> int \<Rightarrow> RoastTemplate list \<Rightarrow> jsstring list \<times> string list
    \<Rightarrow> (jsstring list \<times> string list) option" where
  "triggeredLoop ctx seed [] st = Some st"
| "triggeredLoop ctx seed (template # rest) (roastLines', usedCategories) =
     (if length roastLines' \<ge> 12 then Some (roastLines', usedCategories)
      else if List.member usedCategories (category template)
      then triggeredLoop ctx seed rest (roastLines', usedCategories)
      else do {
        line \<leftarrow> seededPick (lines template) (seed + int (length roastLines') * 13);
        replaced \<leftarrow> replacePlaceholders line ctx (seed + int (length roastLines'));
        triggeredLoop ctx seed rest
          (roastLines' @ [replaced], usedCategories @ [category template])
      })"

text \<open>The third loop: more picks among the triggered templates, up to ten lines or a repeated line.\<close>

function fillLoop ::
  "RoastContext \<Rightarrow> int \<Rightarrow> RoastTemplate list \<Rightarrow> jsstring list \<Rightarrow> jsstring list option" where
  "fillLoop ctx seed triggeredTemplates roastLines' =
     (if length roastLines' < 10 \<and> length triggeredTemplates > 0
      then do {
        template \<leftarrow> seededPick triggeredTemplates (seed + int (length roastLines') * 19);
        line \<leftarrow> seededPick (lines template) (seed + int (length roastLines') * 23);
        replaced \<leftarrow> replacePlaceholders line ctx (seed + int (length roastLines'));
        if \<not> List.member roastLines' replaced
        then fillLoop ctx seed triggeredTemplates (roastLines' @ [replaced])
        else Some roastLines'
      }
      else Some roastLines')"
  by pat_completeness auto
termination
  by (relation "measure (\<lambda>(ctx, seed, triggeredTemplates, roastLines'). 10 - length roastLines')")
    auto

declare fillLoop.simps [simp del]

text \<open>The fourth loop: up to two of the shuffled finishers, while there are fewer than fourteen lines.\<close>

fun finisherLoop ::
  "RoastContext \<Rightarrow> int \<Rightarrow> RoastTemplate list \<Rightarrow> nat list \<Rightarrow> jsstring list \<Rightarrow> jsstring list option" where
  "finisherLoop ctx seed shuffledFinishers [] roastLines' = Some roastLines'"
| "finisherLoop ctx seed shuffledFinishers (i # rest) roastLines' =
     (if length roastLines' \<ge> 14 then Some roastLines'
      else do {
        template \<leftarrow> nthOpt shuffledFinishers i;
        line \<leftarrow> seededPick (lines template) (seed + 300 + int i);
        replaced \<leftarrow> replacePlaceholders line ctx (seed + 300 + int i);
        finisherLoop ctx seed shuffledFinishers rest (roastLines' @ [replaced])
      })"

fun titles :: "RoastLevel \<Rightarrow> jsstring list" where
  "titles light = map js [''A Gentle Flame'', ''Lightly Toasted'', ''The Warm-Up Act'']"
| "titles medium =
     map js [''Medium Rare Reality Check'', ''The Heat Is On'', ''No Mercy, Some Restraint'']"
| "titles spicy =
     map js [''Absolute Inferno'', ''Career Cremation'', ''The Full Scorched Earth'']"

definition allRedemptions :: "jsstring list" where
  \<open>allRedemptions = map js
    [''Add 3-5 quantified metrics to your strongest bullet points'',
     ''Create a projects section with links to actual work you\'ve shipped'',
     ''Replace every \'responsible for\' with a strong action verb + measurable result'',
     ''Add your GitHub/portfolio link - show, don\'t just tell'',
     ''Cut the buzzwords and replace with specific technologies and outcomes'',
     ''Trim your resume to one page with only your strongest achievements'',
     ''Write a 2-3 sentence summary that positions you clearly for your target role'',
     ''Rewrite your weakest bullets using the format: Verb + What + Tech + Result'']\<close>

definition roastBoundaries :: "jsstring list" where
  \<open>roastBoundaries = map js
    [''This roast targets your resume\'s writing and content, not you as a person.'',
     ''Strong language is used for comedic effect only.'',
     ''No personal attacks, slurs, or discriminatory content.'']\<close>

text \<open>\<open>(seed % Math.max(1, Math.min(roastLines.length - 2, 8))) + 1\<close>\<close>

definition bestIdxOf :: "int \<Rightarrow> nat \<Rightarrow> int option" where
  "bestIdxOf seed n =
     do {
       m \<leftarrow> jsRem seed (max 1 (min (int n - 2) 8));
       Some (m + 1)
     }"

text \<open>\<open>roastLines[bestIdx] || roastLines[0] || "Your resume needs work."\<close>\<close>

definition bestLineOf :: "jsstring list \<Rightarrow> int \<Rightarrow> jsstring" where
  "bestLineOf roastLines' bestIdx =
     jsOr (Some (jsOr (if bestIdx < 0 then None else nthOpt roastLines' (nat bestIdx))
                      (jsOr (nthOpt roastLines' 0) [])))
          (js ''Your resume needs work.'')"

definition generateRoast :: "jsstring \<Rightarrow> RoastLevel \<Rightarrow> RoastResponse option" where
  "generateRoast text roastLevel =
     (let ctx = buildContext text;
          seed = simpleHash text;
          levelNum = LEVEL_ORDER roastLevel;
          eligible = filter (\<lambda>t. LEVEL_ORDER (minLevel t) \<le> levelNum \<and> trigger t ctx) TEMPLATES;
          overallTemplates = filter (\<lambda>t. category t = ''overall'') eligible;
          triggeredTemplates =
            filter (\<lambda>t. category t \<noteq> ''overall'' \<and> category t \<noteq> ''finisher'') eligible;
          finisherTemplates = filter (\<lambda>t. category t = ''finisher'') eligible
      in do {
        shuffledOverall \<leftarrow> seededShuffle overallTemplates seed;
        lines1 \<leftarrow> overallLoop ctx seed shuffledOverall
          [0 ..< min 2 (length shuffledOverall)] [];
        shuffledTriggered \<leftarrow> seededShuffle triggeredTemplates (seed + 100);
        st2 \<leftarrow> triggeredLoop ctx seed shuffledTriggered (lines1, []);
        lines3 \<leftarrow> fillLoop ctx seed triggeredTemplates (fst st2);
        shuffledFinishers \<leftarrow> seededShuffle finisherTemplates (seed + 200);
        roastLines' \<leftarrow> finisherLoop ctx seed shuffledFinishers
          [0 ..< min 2 (length shuffledFinishers)] lines3;
        bestIdx \<leftarrow> bestIdxOf seed (length roastLines');
        title' \<leftarrow> seededPick (titles roastLevel) seed;
        shuffledRedemptions \<leftarrow> seededShuffle allRedemptions (seed + 500);
        Some \<lparr>title = title',
          roastLines = roastLines',
          bestLine = bestLineOf roastLines' bestIdx,
          redemption = take 3 shuffledRedemptions,
          boundaries = roastBoundaries\<rparr>
      })"

section \<open>The improver\<close>

record Rewrite =
  before' :: jsstring
  after' :: jsstring

record ImproveResponse =
  priorityFixes :: "jsstring list"
  rewrittenBullets :: "Rewrite list"
  improvedSummary :: jsstring
  atsTips :: "jsstring list"

definition vaguePatterns :: "rx list" where
  "vaguePatterns = [Str ''responsible for'', Str ''helped with'', Str ''assisted in'',
     Str ''worked on'', Str ''involved in'', Str ''participated in'', Str ''tasked with'',
     Str ''various'', Str ''miscellaneous'']"

text \<open>\<open>/\d+%|\$[\d,]+|\d+x\b/i\<close>\<close>

definition anyMetric :: rx where
  "anyMetric = alts [Seq digits1 (Str ''%''),
     Seq (Str ''$'') (Many (Cls [CDigit, CChr CHR '','']) 1),
     seqs [digits1, Str ''x'', WordB]]"

definition vaguePrefix :: rx where
  "vaguePrefix = seqs [Bol, alts [Str ''responsible for'', Str ''helped with'',
     Str ''assisted in'', Str ''worked on'', Str ''involved in'', Str ''participated in'',
     Str ''tasked with''], spaces0]"

definition verbPrefix :: rx where
  "verbPrefix = seqs [Bol, alts [Str ''built'', Str ''created'', Str ''developed'',
     Str ''designed'', Str ''implemented'', Str ''managed'', Str ''led'', Str ''established'',
     Str ''launched'', Str ''deployed'', Str ''maintained'', Str ''wrote'', Str ''authored'',
     Str ''handled'', Str ''conducted'', Str ''performed'', Str ''executed'',
     Str ''coordinated'', Str ''organized'', Str ''facilitated'', Str ''supported'',
     Str ''contributed to''], spaces1]"

definition rewriteVerbs :: "jsstring list" where
  "rewriteVerbs = map js [''Spearheaded'', ''Engineered'', ''Delivered'', ''Optimized'',
     ''Streamlined'', ''Architected'']"

text \<open>The body of the loop of \<open>generateBulletRewrites\<close> for the index \<open>i\<close>.\<close>

definition rewriteAt :: "jsstring list \<Rightarrow> jsstring list \<Rightarrow> nat \<Rightarrow> Rewrite option" where
  "rewriteAt toRewrite tech i =
     do {
       before0 \<leftarrow> nthOpt toRewrite i;
       k \<leftarrow> jsRem (int i) (int (length rewriteVerbs));
       verb \<leftarrow> nthOpt rewriteVerbs (nat k);
       let core0 = trim (replaceFirst False (Seq (Str ''.'') Eol) []
             (replaceFirst True verbPrefix [] (replaceFirst True vaguePrefix [] before0)));
       let core = (if length core0 > 100 then take 97 core0 @ js ''...'' else core0);
       let newTech =
             filter (\<lambda>t. \<not> includesStr (toLowerCase before0) (toLowerCase t)) tech;
       let techMention = (if length newTech > 0
             then js '' leveraging '' @ join (js '' and '') (take 2 newTech) else []);
       Some \<lparr>before' = before0,
         after' = verb @ js '' '' @ toLowerCase (take 1 core) @ drop 1 core @ techMention
           @ js '', resulting in (~X%) improvement in [key metric]''\<rparr>
     }"

fun rewriteLoop :: "jsstring list \<Rightarrow> jsstring list \<Rightarrow> nat list \<Rightarrow> Rewrite list \<Rightarrow> Rewrite list option" where
  "rewriteLoop toRewrite tech [] rewrites = Some rewrites"
| "rewriteLoop toRewrite tech (i # rest) rewrites =
     do {
       r \<leftarrow> rewriteAt toRewrite tech i;
       rewriteLoop toRewrite tech rest (rewrites @ [r])
     }"

definition generateBulletRewrites :: "jsstring list \<Rightarrow> jsstring list \<Rightarrow> Rewrite list option" where
  "generateBulletRewrites bullets tech =
     (let candidates = filter (\<lambda>b.
            (let isVague = list_ex (\<lambda>p. test True p b) vaguePatterns;
                 hasNoMetric = (\<not> test True anyMetric b)
             in isVague \<or> hasNoMetric)) bullets;
          toRewrite0 = take 3 candidates;
          toRewrite = (if length toRewrite0 = 0 \<and> length bullets > 0
            then toRewrite0 @ take (min 3 (length bullets)) bullets else toRewrite0)
      in rewriteLoop toRewrite tech [0 ..< length toRewrite] [])"

definition rolePatterns :: "(rx \<times> jsstring) list" where
  "rolePatterns =
    [(seqs [WordB, alts [Str ''senior'', Seq (Str ''sr'') (Opt (Str ''.''))], spaces0,
        alts [Str ''software'', Str ''frontend'', Str ''backend'',
          seqs [Str ''full'', Opt Dot, Str ''stack'']], spaces0,
        alts [Str ''engineer'', Str ''developer''], WordB],
      js ''Senior Software Engineer''),
     (seqs [WordB, alts [Str ''software'', Str ''frontend'', Str ''backend'',
          seqs [Str ''full'', Opt Dot, Str ''stack'']], spaces0,
        alts [Str ''engineer'', Str ''developer''], WordB],
      js ''Software Engineer''),
     (seqs [WordB, Str ''data'', spaces0,
        alts [Str ''scientist'', Str ''analyst'', Str ''engineer''], WordB],
      js ''Data Professional''),
     (seqs [WordB, alts [Str ''product'', Str ''program'', Str ''project''], spaces0,
        Str ''manager'', WordB],
      js ''Product/Program Manager''),
     (seqs [WordB, alts [Str ''devops'', Str ''sre'', Str ''site reliability'', Str ''platform''],
        spaces0, Opt (Str ''engineer''), WordB],
      js ''DevOps/Platform Engineer''),
     (wordsRx [Str ''designer'', Str ''ux'', Str ''ui''], js ''Designer''),
     (seqs [WordB, alts [Str ''marketing'', Str ''growth'', Str ''content''], spaces0,
        Opt (alts [Str ''manager'', Str ''specialist'', Str ''lead'']), WordB],
      js ''Marketing Professional'')]"

text \<open>
  \<open>s.match(/(a)b/)\<close> without the \<open>g\<close> flag, read at index 1: what the group
  \<open>a\<close> holds in the leftmost match, \<open>None\<close> where there is no match.
\<close>

definition captureAt :: "bool \<Rightarrow> rx \<Rightarrow> rx \<Rightarrow> pos \<Rightarrow> jsstring option" where
  "captureAt ci a b p =
     (case filter (\<lambda>e. ends ci b e \<noteq> []) (ends ci a p) of
        [] \<Rightarrow> None
      | e # _ \<Rightarrow> Some (take (length (snd p) - length (snd e)) (snd p)))"

fun captureFrom :: "bool \<Rightarrow> rx \<Rightarrow> rx \<Rightarrow> int option \<Rightarrow> jsstring \<Rightarrow> jsstring option" where
  "captureFrom ci a b p [] = captureAt ci a b (p, [])"
| "captureFrom ci a b p (x # xs) =
     (case captureAt ci a b (p, x # xs) of
        Some c \<Rightarrow> Some c
      | None \<Rightarrow> captureFrom ci a b (Some x) xs)"

definition yearsRest :: rx where
  "yearsRest = seqs [Opt (Str ''+''), spaces0, plural ''year'', spaces0,
     Opt (Seq (Str ''of'') spaces0), alts [Str ''experience'', Str ''exp'']]"

definition generateSummary :: "jsstring \<Rightarrow> jsstring list \<Rightarrow> jsstring" where
  "generateSummary text tech =
     (let lower = toLowerCase text;
          role = (case find (\<lambda>(pattern, label'). test True pattern lower) rolePatterns of
                    Some (pattern, label') \<Rightarrow> label'
                  | None \<Rightarrow> js ''software professional'');
          topTech = join (js '', '') (take 4 tech);
          techPhrase = (if topTech \<noteq> [] then js '' specializing in '' @ topTech else []);
          yearsPhrase = (case captureFrom True digits1 yearsRest None text of
                    Some years \<Rightarrow> js '' with '' @ years @ js ''+ years of experience''
                  | None \<Rightarrow> [])
      in js ''Results-driven '' @ role @ yearsPhrase @ techPhrase
         @ js ''. Proven track record of delivering scalable solutions and driving measurable business impact. Seeking to leverage technical expertise and leadership skills to [target goal/company mission].'')"

definition monthDates :: rx where
  "monthDates = seqs [WordB, alts [Str ''jan'', Str ''feb'', Str ''mar'', Str ''apr'', Str ''may'',
       Str ''jun'', Str ''jul'', Str ''aug'', Str ''sep'', Str ''oct'', Str ''nov'', Str ''dec'',
       Str ''january'', Str ''february'', Str ''march'', Str ''april'', Str ''june'',
       Str ''july'', Str ''august'', Str ''september'', Str ''october'', Str ''november'',
       Str ''december''],
     WordB, spaces0, One (Cls [CDigit]), One (Cls [CDigit]), One (Cls [CDigit]),
     One (Cls [CDigit])]"

text \<open>
  The class of the dash pattern holds the hyphen and the code units U+00E2, U+20AC and
  U+201C, as the source file spells it; under the \<open>i\<close> flag U+00E2 also stands for its
  capital U+00C2.
\<close>

definition dashDates :: rx where
  "dashDates = seqs [One (Cls [CDigit]), One (Cls [CDigit]), One (Cls [CDigit]),
     One (Cls [CDigit]), spaces0,
     One (Cls [CChr CHR ''-'', CLit 226, CLit 194, CLit 8364, CLit 8220]), spaces0,
     alts [seqs [One (Cls [CDigit]), One (Cls [CDigit]), One (Cls [CDigit]),
       One (Cls [CDigit])], Str ''present'', Str ''current'']]"

definition genericFix :: jsstring where
  \<open>genericFix = js ''Review each bullet for the pattern: [Action Verb] + [What You Did] + [Technology Used] + [Measurable Result]. Rewrite any that don\'t match.''\<close>

text \<open>\<open>while (priorityFixes.length < 3) priorityFixes.push(...)\<close>\<close>

function padFixes :: "jsstring list \<Rightarrow> jsstring list" where
  "padFixes fixes = (if length fixes < 3 then padFixes (fixes @ [genericFix]) else fixes)"
  by pat_completeness auto
termination
  by (relation "measure (\<lambda>fixes. 3 - length fixes)") auto

declare padFixes.simps [simp del]

definition fixesOf ::
  "nat \<Rightarrow> jsstring list \<Rightarrow> bool \<Rightarrow> bool \<Rightarrow> nat \<Rightarrow> BuzzResult \<Rightarrow> nat \<Rightarrow> bool \<Rightarrow> nat
    \<Rightarrow> jsstring list option" where
  \<open>fixesOf nMetrics vague hasSummary' hasProjects' nLinks buzzResult nWords hasSkills' nTech =
     do {
       vagueFix \<leftarrow> (if length vague > 0
          then do {
            first \<leftarrow> nthOpt vague 0;
            Some [js ''Replace vague phrases like "'' @ first
              @ js ''" with specific action verbs followed by measurable outcomes. Use verbs like "Engineered," "Delivered," or "Optimized."'']
          }
          else Some []);
       Some (
         (if nMetrics = 0
          then [js ''Add quantified metrics to every bullet point. Use numbers like percentages, dollar amounts, time saved, users impacted. Even estimates with (~X%) are better than nothing.'']
          else if nMetrics < 3
          then [js ''You have a few metrics, but aim for at least one quantified result per role. Replace vague claims with specific numbers.'']
          else [])
         @ vagueFix
         @ (if \<not> hasSummary'
            then [js ''Add a professional summary section (2-3 sentences) at the top that positions you for your target role and highlights your strongest differentiators.'']
            else [])
         @ (if \<not> hasProjects'
            then [js ''Add a Projects section showcasing 2-3 things you\'ve built, with tech stack, what you did, and a link if possible. This proves you ship.'']
            else [])
         @ (if nLinks = 0
            then [js ''Add links to your GitHub, portfolio, or LinkedIn profile. Recruiters want to see evidence of your work online.'']
            else [])
         @ (if hits buzzResult > 3
            then [js ''Cut the buzzwords ('' @ join (js '', '') (take 3 (found buzzResult))
              @ js ''). Replace each with a concrete example of what you actually did.'']
            else [])
         @ (if nWords > 1000
            then [js ''Your resume is too long. Cut it to one page by removing the weakest bullets and keeping only your top achievements per role.'']
            else [])
         @ (if \<not> hasSkills'
            then [js ''Add a dedicated Skills/Technologies section grouped by category (Languages, Frameworks, Tools, Cloud, etc.).'']
            else [])
         @ (if nTech < 3
            then [js (''Name specific technologies throughout your bullets instead of being vague. \'Built a REST API\' becomes \'Built a REST API using Node.js, Express, and PostgreSQL.'' @ [CHR 0x27])]
            else []))
     }\<close>

definition atsTipsOf :: "nat \<Rightarrow> bool \<Rightarrow> jsstring list" where
  \<open>atsTipsOf nWords noDates =
     map js [''Use a single-column layout to ensure ATS can parse your resume correctly.'',
       ''Avoid tables, text boxes, headers/footers, and multi-column formats.'',
       ''Use standard section headings: Experience, Education, Skills, Projects.'',
       ''Save as PDF to preserve formatting across devices.'']
     @ (if nWords < 200
        then [js ''Your resume seems very sparse - expand with more detail and achievements.'']
        else [])
     @ (if noDates
        then [js ''Use consistent date formats throughout (e.g., \'Jan 2022 - Present\' or \'2022 - Present\').'']
        else [])\<close>

definition generateImprovements :: "jsstring \<Rightarrow> ImproveResponse option" where
  "generateImprovements text =
     (let bullets = extractBullets text;
          buzzResult = detectBuzzwords text;
          vague = detectVaguePhrases text;
          tech = detectTechStack text;
          words = wordsOf text;
          wordCount' = length words;
          metricCount' = countSimpleMetrics text;
          linkCount' = length (matchAll True urlPattern text);
          hasSummary' = test True summaryWord text;
          hasProjects' = test True projectsWord text;
          hasSkills' = test True skillsWord text
      in do {
        fixes \<leftarrow> fixesOf metricCount' vague hasSummary' hasProjects' linkCount' buzzResult
          wordCount' hasSkills' (length tech);
        let priorityFixes' = padFixes fixes;
        rewrittenBullets' \<leftarrow> generateBulletRewrites bullets tech;
        let improvedSummary' = generateSummary text tech;
        let datePatterns = matchAll True monthDates text;
        let dashes = matchAll True dashDates text;
        Some \<lparr>priorityFixes = take 7 priorityFixes',
          rewrittenBullets = rewrittenBullets',
          improvedSummary = improvedSummary',
          atsTips = atsTipsOf wordCount' (datePatterns = [] \<and> dashes = [])\<rparr>
      })"

section \<open>Inputs used below\<close>

text \<open>The resume of the end-to-end scenario of the specification.\<close>

definition scenarioText :: jsstring where
  "scenarioText =
     js ''Experience\<newline>Responsible for various tasks.\<newline>Education\<newline>State University''"

text \<open>A resume with five bullets, three technologies, a link, a metric and the word projects, in thirteen words.\<close>

definition thinRoastText :: jsstring where
  "thinRoastText =
     js ''- go aws sql 5%\<newline>- http://a.io\<newline>- projects\<newline>- aaaaaa\<newline>- aaaaaa''"

text \<open>A line with a tab in it.\<close>

definition tabbedText :: jsstring where
  "tabbedText = js ''Senior engineer'' @ [9] @ js ''with a tab between the two halves of this line''"

text \<open>An experience heading with a line under it, and a second one with none.\<close>

definition twoHeadings :: jsstring where
  "twoHeadings =
     js ''Experience\<newline>Built the billing pipeline for three teams\<newline>Experience''"

text \<open>A resume of one bullet without a number, and the bullet with a percentage to append to it.\<close>

definition plainBullet :: jsstring where
  "plainBullet = js ''- Worked on the website for the marketing department team''"

definition revenueBullet :: jsstring where
  "revenueBullet = js ''\<newline>- Increased revenue by 20%''"

text \<open>A resume whose only number is a duration.\<close>

definition durationText :: jsstring where
  "durationText = js ''Cut the latency of the checkout service to 200ms overall''"

text \<open>A resume of one line of prose, too long for a heading, with the word portfolio in it.\<close>

definition portfolioText :: jsstring where
  "portfolioText =
     js ''I have spent many years curating a large portfolio of client work for agencies''"

section \<open>Notions used in the proofs\<close>

text \<open>A template that has lines, none of them empty or starting with a brace.\<close>

definition goodTemplate :: "RoastTemplate \<Rightarrow> bool" where
  "goodTemplate t = (lines t \<noteq> [] \<and> list_all (\<lambda>l. l \<noteq> [] \<and> hd l \<noteq> 123) (lines t))"

text \<open>The categories of the templates that are neither openers nor finishers.\<close>

definition triggerCategories :: "string list" where
  "triggerCategories = [''no_metrics'', ''buzzwords'', ''vague'', ''weak_bullets'',
     ''no_projects'', ''generic_skills'', ''no_summary'', ''no_links'', ''too_long'',
     ''too_short'']"

section \<open>The normaliser and the segmentation, stated directly\<close>

text \<open>
  The four rewriting steps of \<open>cleanText\<close> as functions on lists of code units, without the
  regular expression engine, to compare the source with. Every carriage return followed
  by a line feed becomes a line feed, scanning from the left.
\<close>

fun crlfToLf :: "jsstring \<Rightarrow> jsstring" where
  "crlfToLf [] = []"
| "crlfToLf [x] = [x]"
| "crlfToLf (x # y # xs) =
     (if x = 13 \<and> y = 10 then 10 # crlfToLf xs else x # crlfToLf (y # xs))"

text \<open>Every tab becomes one space.\<close>

definition tabsToSpace :: "jsstring \<Rightarrow> jsstring" where
  "tabsToSpace s = map (\<lambda>c. if c = 9 then 32 else c) s"

text \<open>Every maximal run of at least \<open>n\<close> copies of the code unit \<open>c\<close> becomes \<open>m\<close> copies of it.\<close>

function squeezeRuns :: "int \<Rightarrow> nat \<Rightarrow> nat \<Rightarrow> jsstring \<Rightarrow> jsstring" where
  "squeezeRuns c n m [] = []"
| "squeezeRuns c n m (x # xs) =
     (if x = c
      then (if n \<le> length (takeWhile (\<lambda>y. y = c) (x # xs))
            then replicate m c else takeWhile (\<lambda>y. y = c) (x # xs))
           @ squeezeRuns c n m (dropWhile (\<lambda>y. y = c) xs)
      else x # squeezeRuns c n m xs)"
  by pat_completeness auto
termination
  by (relation "measure (\<lambda>(c, n, m, s). length s)") (auto simp: less_Suc_eq_le length_dropWhile_le)

text \<open>
  The segments of a text: the label in force and the lines gathered under it, one segment
  for the lines before the first heading and one for every heading line, in order.
\<close>

fun segmentsFrom :: "string \<Rightarrow> jsstring list \<Rightarrow> jsstring list \<Rightarrow> (string \<times> jsstring list) list" where
  "segmentsFrom cur acc [] = [(cur, acc)]"
| "segmentsFrom cur acc (line # rest) =
     (case matchHeader (trim line) of
        Some h \<Rightarrow> (cur, acc) # segmentsFrom h [] rest
      | None \<Rightarrow> segmentsFrom cur (acc @ [line]) rest)"

definition segments :: "jsstring \<Rightarrow> (string \<times> jsstring list) list" where
  "segments s = segmentsFrom ''preamble'' [] (splitLines s)"

text \<open>The lines of the last segment with a label, and of the last one that has any line.\<close>

definition lastSegment :: "string \<Rightarrow> (string \<times> jsstring list) list \<Rightarrow> jsstring list option" where
  "lastSegment l segs =
     (case filter (\<lambda>(l', c). l' = l) segs of [] \<Rightarrow> None | x # xs \<Rightarrow> Some (snd (last (x # xs))))"

definition lastFilled :: "string \<Rightarrow> (string \<times> jsstring list) list \<Rightarrow> jsstring list option" where
  "lastFilled l segs =
     (case filter (\<lambda>(l', c). l' = l \<and> c \<noteq> []) segs of
        [] \<Rightarrow> None | x # xs \<Rightarrow> Some (snd (last (x # xs))))"

section \<open>Metrics as the roaster sees them, stated on the text\<close>

text \<open>Some code unit with the first property is directly followed by one with the second.\<close>

fun follows :: "(int \<Rightarrow> bool) \<Rightarrow> (int \<Rightarrow> bool) \<Rightarrow> jsstring \<Rightarrow> bool" where
  "follows P Q (x # y # s) = ((P x \<and> Q y) \<or> follows P Q (y # s))"
| "follows P Q s = False"

text \<open>A digit directly followed by a percent sign.\<close>

definition hasPercentage :: "jsstring \<Rightarrow> bool" where
  "hasPercentage s = follows isDigit (\<lambda>c. c = 37) s"

text \<open>A dollar sign directly followed by a digit or a comma.\<close>

definition hasDollarAmount :: "jsstring \<Rightarrow> bool" where
  "hasDollarAmount s = follows (\<lambda>c. c = 36) (\<lambda>c. isDigit c \<or> c = 44) s"

text \<open>
  A digit directly followed by \<open>x\<close> or \<open>X\<close>, with the end of the text or a code unit
  that is no letter, digit or underscore behind it.
\<close>

fun hasMultiplier :: "jsstring \<Rightarrow> bool" where
  "hasMultiplier (d # x # s) =
     ((isDigit d \<and> (x = 120 \<or> x = 88) \<and> (case s of [] \<Rightarrow> True | c # _ \<Rightarrow> \<not> isWordChar c))
      \<or> hasMultiplier (x # s))"
| "hasMultiplier s = False"

text \<open>The resume with a dollar sign and no digit.\<close>

definition dollarCommaText :: jsstring where
  "dollarCommaText = js ''We were paid in $, not in euros, and we liked it a lot''"

text \<open>The lines of the templates of a category.\<close>

definition linesOf :: "string \<Rightarrow> jsstring list" where
  "linesOf c = concat (map lines (filter (\<lambda>t. category t = c) TEMPLATES))"

section \<open>Where an expression cannot match\<close>

text \<open>
  Two tests on an expression and the code unit \<open>x\<close> at a position, both on the safe side:
  \<open>idle\<close> holds where the expression can match nothing but the empty string there, and
  \<open>blocked\<close> where it cannot match at all.
\<close>

fun idle :: "bool \<Rightarrow> rx \<Rightarrow> int \<Rightarrow> bool" where
  "idle ci (Lit []) x = True"
| "idle ci (Lit (a # as)) x = (canon ci a \<noteq> canon ci x)"
| "idle ci (One c) x = (\<not> inCls ci c x)"
| "idle ci Dot x = isLineTerminator x"
| "idle ci (Seq a b) x = (idle ci a x \<and> idle ci b x)"
| "idle ci (Alt a b) x = (idle ci a x \<and> idle ci b x)"
| "idle ci (Opt a) x = idle ci a x"
| "idle ci (Many c n) x = (\<not> inCls ci c x)"
| "idle ci WordB x = True"
| "idle ci Bol x = True"
| "idle ci Eol x = True"

fun blocked :: "bool \<Rightarrow> rx \<Rightarrow> int \<Rightarrow> bool" where
  "blocked ci (Lit []) x = False"
| "blocked ci (Lit (a # as)) x = (canon ci a \<noteq> canon ci x)"
| "blocked ci (One c) x = (\<not> inCls ci c x)"
| "blocked ci Dot x = isLineTerminator x"
| "blocked ci (Seq a b) x = (blocked ci a x \<or> (idle ci a x \<and> blocked ci b x))"
| "blocked ci (Alt a b) x = (blocked ci a x \<and> blocked ci b x)"
| "blocked ci (Opt a) x = False"
| "blocked ci (Many c n) x = (0 < n \<and> \<not> inCls ci c x)"
| "blocked ci WordB x = False"
| "blocked ci Bol x = False"
| "blocked ci Eol x = True"

text \<open>
  A resume of 150 words that raises no red flag: 143 lines with a full stop each, then a
  summary, an experience and a skills section, the last with a link and a metric.
\<close>

definition fullStops :: jsstring where
  "fullStops = concat (replicate 143 [46, 10])"

definition sectionsTail :: jsstring where
  "sectionsTail =
     js ''About\<newline>a\<newline>Career\<newline>a\<newline>Skills\<newline>http://github.com/a 5%''"

definition paddedText :: jsstring where
  "paddedText = fullStops @ sectionsTail"

section \<open>Helper lemmas\<close>

lemma nthOpt_Some: "i < length xs \<Longrightarrow> nthOpt xs i = Some (xs ! i)"
  by (simp add: nthOpt_def)

lemma nthOpt_eq_Some: "nthOpt xs i = Some x \<longleftrightarrow> i < length xs \<and> xs ! i = x"
  by (simp add: nthOpt_def)

lemma jsRem_nonneg: "0 \<le> a \<Longrightarrow> 0 < b \<Longrightarrow> jsRem a b = Some (a mod b)"
  by (cases "a = 0") (simp_all add: jsRem_def)

lemma and31_range: "0 \<le> and31 x \<and> and31 x < 2147483648"
  by (simp add: and31_def)

lemma lcg_range: "0 \<le> lcg s \<and> lcg s < 2147483648"
  by (simp add: lcg_def and31_range)

lemma seededPick_Some:
  assumes "arr \<noteq> []"
  shows "\<exists>x. seededPick arr seed = Some x \<and> x \<in> set arr"
proof -
  from assms have pos: "0 < int (length arr)" by simp
  have r: "jsRem (lcg seed) (int (length arr)) = Some (lcg seed mod int (length arr))"
    using lcg_range pos by (intro jsRem_nonneg) auto
  have b: "nat (lcg seed mod int (length arr)) < length arr"
    using pos by (simp add: nat_less_iff)
  show ?thesis
    using b by (simp add: seededPick_def r nthOpt_Some)
qed

lemma shuffleFrom_Some:
  "i < length result \<or> i = 0 \<Longrightarrow>
   \<exists>r. shuffleFrom i s result = Some r \<and> set r = set result \<and> length r = length result"
proof (induction i arbitrary: s result)
  case 0
  then show ?case by simp
next
  case (Suc i)
  then have len: "Suc i < length result" by simp
  let ?s = "lcg s"
  let ?j = "?s mod (int (Suc i) + 1)"
  have r: "jsRem ?s (int (Suc i) + 1) = Some ?j"
    using lcg_range by (intro jsRem_nonneg) auto
  have "?j < int (Suc i) + 1" by (intro pos_mod_bound) simp
  then have j: "nat ?j < length result" using len by linarith
  let ?res = "(result[Suc i := result ! nat ?j])[nat ?j := result ! Suc i]"
  have "i < length ?res \<or> i = 0" using len by simp
  from Suc.IH [OF this, of ?s] obtain r' where
    r': "shuffleFrom i ?s ?res = Some r'" "set r' = set ?res" "length r' = length ?res"
    by blast
  have "set ?res = set result" using len j by (simp add: set_swap)
  with r' show ?case
    using len j r by (simp add: Let_def nthOpt_Some)
qed

lemma seededShuffle_Some:
  "\<exists>r. seededShuffle arr seed = Some r \<and> set r = set arr \<and> length r = length arr"
  unfolding seededShuffle_def
  by (rule shuffleFrom_Some) (cases arr; simp)

lemma replaceStr_no_brace:
  "a \<notin> set line \<Longrightarrow> replaceStr (a # pat) rep line = line"
  by (induction line) auto

lemma replaceStr_keeps_head:
  "line \<noteq> [] \<Longrightarrow> hd line \<noteq> a \<Longrightarrow> replaceStr (a # pat) rep line \<noteq> []"
  by (cases line) auto

lemma replaceStr_hd:
  "line \<noteq> [] \<Longrightarrow> hd line \<noteq> a \<Longrightarrow> hd (replaceStr (a # pat) rep line) = hd line"
  by (cases line) auto

lemma js_BW1: "js ''{BW1}'' = 123 # js ''BW1}''"
  by (simp add: js_def)

lemma js_BW2: "js ''{BW2}'' = 123 # js ''BW2}''"
  by (simp add: js_def)

text \<open>A line that is not empty and does not start with a brace stays so; one without braces stays as it is.\<close>

lemma replacePlaceholders_Some:
  "\<exists>r. replacePlaceholders line ctx seed = Some r
     \<and> (line \<noteq> [] \<and> hd line \<noteq> 123 \<longrightarrow> r \<noteq> [])
     \<and> (123 \<notin> set line \<longrightarrow> r = line)"
  by (auto simp: replacePlaceholders_def nthOpt_def js_BW1 js_BW2 replaceStr_no_brace
        replaceStr_keeps_head replaceStr_hd)

lemma TEMPLATES_good:
  "list_all (\<lambda>t. goodTemplate t
      \<and> List.member (''overall'' # ''finisher'' # triggerCategories) (category t)
      \<and> (if category t = ''no_metrics'' then list_all (\<lambda>l. \<not> List.member l 123) (lines t) else True))
    TEMPLATES"
  by code_simp

lemma TEMPLATES_overall_light:
  "category (TEMPLATES ! 0) = ''overall'' \<and> minLevel (TEMPLATES ! 0) = light
     \<and> trigger (TEMPLATES ! 0) = (\<lambda>ctx. True)"
  by (simp add: TEMPLATES_def)

lemma TEMPLATES_no_metrics_light:
  "category (TEMPLATES ! 3) = ''no_metrics'' \<and> minLevel (TEMPLATES ! 3) = light
     \<and> trigger (TEMPLATES ! 3) = (\<lambda>ctx. RoastContext.metricCount ctx = 0)"
  by (simp add: TEMPLATES_def)

lemma TEMPLATES_finisher_light:
  "category (TEMPLATES ! 26) = ''finisher'' \<and> minLevel (TEMPLATES ! 26) = light
     \<and> trigger (TEMPLATES ! 26) = (\<lambda>ctx. True)"
  by (simp add: TEMPLATES_def)

lemma TEMPLATES_length: "length TEMPLATES = 29"
  by (simp add: TEMPLATES_def)

lemma pickLine:
  assumes "goodTemplate t"
  shows "\<exists>l r. seededPick (lines t) sd = Some l \<and> l \<in> set (lines t)
           \<and> replacePlaceholders l ctx sd' = Some r \<and> r \<noteq> []
           \<and> (123 \<notin> set l \<longrightarrow> r = l)"
proof -
  from assms have ne: "lines t \<noteq> []"
    and all: "\<forall>l\<in>set (lines t). l \<noteq> [] \<and> hd l \<noteq> 123"
    by (simp_all add: goodTemplate_def list_all_iff)
  from seededPick_Some [OF ne] obtain l where l: "seededPick (lines t) sd = Some l" "l \<in> set (lines t)"
    by blast
  with all have "l \<noteq> []" "hd l \<noteq> 123" by auto
  with replacePlaceholders_Some [of l ctx sd'] l show ?thesis by blast
qed

lemma overallLoop_Some:
  assumes "\<forall>t\<in>set sh. goodTemplate t" "\<forall>i\<in>set idxs. i < length sh"
  shows "\<exists>new. overallLoop ctx seed sh idxs acc = Some (acc @ new)
           \<and> length new = length idxs \<and> (\<forall>l\<in>set new. l \<noteq> [])"
  using assms(2)
proof (induction idxs arbitrary: acc)
  case Nil
  then show ?case by simp
next
  case (Cons i idxs)
  then have i: "i < length sh" by simp
  with assms(1) have "goodTemplate (sh ! i)" by simp
  from pickLine [OF this, of "seed + int i * 7" ctx "seed + int i"]
  obtain l r where lr: "seededPick (lines (sh ! i)) (seed + int i * 7) = Some l"
    "replacePlaceholders l ctx (seed + int i) = Some r" "r \<noteq> []"
    by blast
  from Cons have "\<forall>i\<in>set idxs. i < length sh" by simp
  from Cons.IH [OF this, of "acc @ [r]"] obtain new where
    new: "overallLoop ctx seed sh idxs (acc @ [r]) = Some ((acc @ [r]) @ new)"
      "length new = length idxs" "\<forall>l\<in>set new. l \<noteq> []"
    by blast
  show ?case
    using i lr new by (intro exI [of _ "r # new"]) (simp add: nthOpt_Some)
qed

lemma distinct_subset_full:
  assumes "distinct used" "set used \<subseteq> set cs" "length cs \<le> length used"
  shows "set used = set cs"
proof -
  have "card (set cs) \<le> length cs" by (rule card_length)
  also have "\<dots> \<le> length used" by fact
  also have "\<dots> = card (set used)" using assms(1) by (simp add: distinct_card)
  finally show ?thesis using assms(2) by (intro card_seteq) auto
qed

lemma triggeredLoop_inv:
  assumes "\<forall>t\<in>set ts. goodTemplate t \<and> category t \<in> set triggerCategories"
    and "distinct used" "set used \<subseteq> set triggerCategories"
    and "length acc \<le> 2 + length used"
  shows "\<exists>new newUsed. triggeredLoop ctx seed ts (acc, used) = Some (acc @ new, used @ newUsed)
      \<and> length new = length newUsed
      \<and> (\<forall>l\<in>set new. l \<noteq> [])
      \<and> set (used @ newUsed) = set used \<union> category ` set ts
      \<and> (\<forall>c\<in>set newUsed. \<exists>t\<in>set ts. category t = c
            \<and> (\<exists>l\<in>set (lines t). 123 \<notin> set l \<longrightarrow> l \<in> set new))
      \<and> length (acc @ new) \<le> max (length acc) 12"
  using assms
proof (induction ts arbitrary: acc used)
  case Nil
  then show ?case by simp
next
  case (Cons t ts)
  then have good: "goodTemplate t" and cat: "category t \<in> set triggerCategories"
    and rest: "\<forall>t\<in>set ts. goodTemplate t \<and> category t \<in> set triggerCategories"
    by simp_all
  show ?case
  proof (cases "length acc \<ge> 12")
    case True
    with Cons.prems(4) have "length triggerCategories \<le> length used"
      by (simp add: triggerCategories_def)
    from distinct_subset_full [OF Cons.prems(2,3) this]
    have full: "set used = set triggerCategories" .
    with Cons.prems(1) have "category ` set (t # ts) \<subseteq> set used" by auto
    with True show ?thesis
      by (intro exI [of _ "[]"]) auto
  next
    case False
    note small = this
    show ?thesis
    proof (cases "List.member used (category t)")
      case True
      then have mem: "category t \<in> set used" by simp
      from Cons.IH [OF rest Cons.prems(2,3,4)] obtain new newUsed where
        IH: "triggeredLoop ctx seed ts (acc, used) = Some (acc @ new, used @ newUsed)"
          "length new = length newUsed" "\<forall>l\<in>set new. l \<noteq> []"
          "set (used @ newUsed) = set used \<union> category ` set ts"
          "\<forall>c\<in>set newUsed. \<exists>t\<in>set ts. category t = c
              \<and> (\<exists>l\<in>set (lines t). 123 \<notin> set l \<longrightarrow> l \<in> set new)"
          "length (acc @ new) \<le> max (length acc) 12"
        by blast
      have "triggeredLoop ctx seed (t # ts) (acc, used) = Some (acc @ new, used @ newUsed)"
        using small True IH(1) by simp
      moreover have "set (used @ newUsed) = set used \<union> category ` set (t # ts)"
        using IH(4) mem by auto
      moreover have "\<forall>c\<in>set newUsed. \<exists>t'\<in>set (t # ts). category t' = c
              \<and> (\<exists>l\<in>set (lines t'). 123 \<notin> set l \<longrightarrow> l \<in> set new)"
        using IH(5) by auto
      ultimately show ?thesis using IH(2,3,6) by blast
    next
      case False
      then have nmem: "category t \<notin> set used" by simp
      from pickLine [OF good, of "seed + int (length acc) * 13" ctx "seed + int (length acc)"]
      obtain l r where lr: "seededPick (lines t) (seed + int (length acc) * 13) = Some l"
        "l \<in> set (lines t)"
        "replacePlaceholders l ctx (seed + int (length acc)) = Some r" "r \<noteq> []"
        "123 \<notin> set l \<longrightarrow> r = l"
        by blast
      have d: "distinct (used @ [category t])" using Cons.prems(2) nmem by simp
      have s: "set (used @ [category t]) \<subseteq> set triggerCategories"
        using Cons.prems(3) cat by simp
      have n: "length (acc @ [r]) \<le> 2 + length (used @ [category t])"
        using Cons.prems(4) by simp
      from Cons.IH [OF rest d s n] obtain new newUsed where
        IH: "triggeredLoop ctx seed ts (acc @ [r], used @ [category t])
              = Some ((acc @ [r]) @ new, (used @ [category t]) @ newUsed)"
          "length new = length newUsed" "\<forall>l\<in>set new. l \<noteq> []"
          "set ((used @ [category t]) @ newUsed) = set (used @ [category t]) \<union> category ` set ts"
          "\<forall>c\<in>set newUsed. \<exists>t\<in>set ts. category t = c
              \<and> (\<exists>l\<in>set (lines t). 123 \<notin> set l \<longrightarrow> l \<in> set new)"
          "length ((acc @ [r]) @ new) \<le> max (length (acc @ [r])) 12"
        by blast
      have "triggeredLoop ctx seed (t # ts) (acc, used)
          = Some (acc @ (r # new), used @ (category t # newUsed))"
        using small False lr(1,3) IH(1) by simp
      moreover have "length (r # new) = length (category t # newUsed)"
        using IH(2) by simp
      moreover have "\<forall>l\<in>set (r # new). l \<noteq> []" using IH(3) lr(4) by simp
      moreover have "set (used @ (category t # newUsed)) = set used \<union> category ` set (t # ts)"
        using IH(4) by auto
      moreover have "\<forall>c\<in>set (category t # newUsed). \<exists>t'\<in>set (t # ts). category t' = c
              \<and> (\<exists>l\<in>set (lines t'). 123 \<notin> set l \<longrightarrow> l \<in> set (r # new))"
      proof
        fix c assume "c \<in> set (category t # newUsed)"
        then consider "c = category t" | "c \<in> set newUsed" by auto
        then show "\<exists>t'\<in>set (t # ts). category t' = c
              \<and> (\<exists>l\<in>set (lines t'). 123 \<notin> set l \<longrightarrow> l \<in> set (r # new))"
        proof cases
          case 1
          then show ?thesis using lr(2,5) by (intro bexI [of _ t]) auto
        next
          case 2
          with IH(5) obtain t' where "t' \<in> set ts" "category t' = c"
            "\<exists>l\<in>set (lines t'). 123 \<notin> set l \<longrightarrow> l \<in> set new" by blast
          then show ?thesis by (intro bexI [of _ t']) auto
        qed
      qed
      moreover have "length (acc @ (r # new)) \<le> max (length acc) 12"
        using IH(6) small by simp
      ultimately show ?thesis by blast
    qed
  qed
qed

lemma fillLoop_Some:
  assumes "\<forall>t\<in>set tr. goodTemplate t"
  shows "\<exists>new. fillLoop ctx seed tr acc = Some (acc @ new)
           \<and> (\<forall>l\<in>set new. l \<noteq> []) \<and> length (acc @ new) \<le> max (length acc) 10"
proof (induction "10 - length acc" arbitrary: acc rule: less_induct)
  case less
  show ?case
  proof (cases "length acc < 10 \<and> length tr > 0")
    case False
    then have "fillLoop ctx seed tr acc = Some acc"
      by (subst fillLoop.simps) auto
    then show ?thesis by (intro exI [of _ "[]"]) simp
  next
    case True
    then have "tr \<noteq> []" by auto
    from seededPick_Some [OF this, of "seed + int (length acc) * 19"] obtain t where
      t: "seededPick tr (seed + int (length acc) * 19) = Some t" "t \<in> set tr" by blast
    with assms have "goodTemplate t" by simp
    from pickLine [OF this, of "seed + int (length acc) * 23" ctx "seed + int (length acc)"]
    obtain l r where lr: "seededPick (lines t) (seed + int (length acc) * 23) = Some l"
      "replacePlaceholders l ctx (seed + int (length acc)) = Some r" "r \<noteq> []"
      by blast
    show ?thesis
    proof (cases "List.member acc r")
      case True
      with \<open>length acc < 10 \<and> length tr > 0\<close> t lr
      have "fillLoop ctx seed tr acc = Some acc"
        by (subst fillLoop.simps) simp
      then show ?thesis by (intro exI [of _ "[]"]) simp
    next
      case False
      have "10 - length (acc @ [r]) < 10 - length acc" using True by auto
      from less [OF this] obtain new where
        new: "fillLoop ctx seed tr (acc @ [r]) = Some ((acc @ [r]) @ new)"
          "\<forall>l\<in>set new. l \<noteq> []" "length ((acc @ [r]) @ new) \<le> max (length (acc @ [r])) 10"
        by blast
      from False True t lr new(1)
      have "fillLoop ctx seed tr acc = Some (acc @ (r # new))"
        by (subst fillLoop.simps) simp
      moreover have "\<forall>l\<in>set (r # new). l \<noteq> []" using new(2) lr(3) by simp
      moreover have "length (acc @ (r # new)) \<le> max (length acc) 10"
        using new(3) True by simp
      ultimately show ?thesis by blast
    qed
  qed
qed

lemma finisherLoop_Some:
  assumes "\<forall>t\<in>set sh. goodTemplate t" "\<forall>i\<in>set idxs. i < length sh"
  shows "\<exists>new. finisherLoop ctx seed sh idxs acc = Some (acc @ new)
           \<and> (\<forall>l\<in>set new. l \<noteq> [])
           \<and> (length acc < 14 \<and> idxs \<noteq> [] \<longrightarrow> new \<noteq> [])"
  using assms(2)
proof (induction idxs arbitrary: acc)
  case Nil
  then show ?case by simp
next
  case (Cons i idxs)
  show ?case
  proof (cases "length acc \<ge> 14")
    case True
    then show ?thesis by (intro exI [of _ "[]"]) simp
  next
    case False
    from Cons have i: "i < length sh" by simp
    with assms(1) have "goodTemplate (sh ! i)" by simp
    from pickLine [OF this, of "seed + 300 + int i" ctx "seed + 300 + int i"]
    obtain l r where lr: "seededPick (lines (sh ! i)) (seed + 300 + int i) = Some l"
      "replacePlaceholders l ctx (seed + 300 + int i) = Some r" "r \<noteq> []"
      by blast
    from Cons have "\<forall>i\<in>set idxs. i < length sh" by simp
    from Cons.IH [OF this, of "acc @ [r]"] obtain new where
      new: "finisherLoop ctx seed sh idxs (acc @ [r]) = Some ((acc @ [r]) @ new)"
        "\<forall>l\<in>set new. l \<noteq> []"
      by blast
    show ?thesis
      using False i lr new by (intro exI [of _ "r # new"]) (simp add: nthOpt_Some)
  qed
qed

lemma simpleHash_nonneg: "0 \<le> simpleHash s"
  by (simp add: simpleHash_def)

lemma bestIdxOf_Some:
  assumes "0 \<le> seed"
  shows "bestIdxOf seed n = Some (seed mod max 1 (min (int n - 2) 8) + 1)"
  using assms by (simp add: bestIdxOf_def jsRem_nonneg)

text \<open>With at least two lines, none of them empty, the best line is the line at the best index.\<close>

lemma bestLineOf_nth:
  assumes "2 \<le> length ls" "\<forall>l\<in>set ls. l \<noteq> []" "0 \<le> seed"
  defines "i \<equiv> nat (seed mod max 1 (min (int (length ls) - 2) 8)) + 1"
  shows "bestLineOf ls (seed mod max 1 (min (int (length ls) - 2) 8) + 1) = ls ! i"
    and "i < length ls" and "0 < i"
    and "3 \<le> length ls \<Longrightarrow> i < length ls - 1"
    and "length ls = 2 \<Longrightarrow> i = 1"
proof -
  let ?m = "max 1 (min (int (length ls) - 2) 8)"
  have m: "0 < ?m" by simp
  have lo: "0 \<le> seed mod ?m" using m by (intro pos_mod_sign)
  have hi: "seed mod ?m < ?m" using m by (intro pos_mod_bound)
  have i_eq: "nat (seed mod ?m + 1) = i" using lo by (simp add: i_def nat_add_distrib)
  show "0 < i" by (simp add: i_def)
  have "?m \<le> max 1 (int (length ls) - 2)" by simp
  with hi have small: "seed mod ?m < max 1 (int (length ls) - 2)" by (rule less_le_trans)
  show il: "i < length ls" using small lo assms(1) unfolding i_def by linarith
  show "3 \<le> length ls \<Longrightarrow> i < length ls - 1" using small lo unfolding i_def by linarith
  show "length ls = 2 \<Longrightarrow> i = 1" using small lo unfolding i_def by simp
  from il assms(2) have ne: "ls ! i \<noteq> []" by simp
  have "\<not> seed mod ?m + 1 < 0" using lo by linarith
  then show "bestLineOf ls (seed mod ?m + 1) = ls ! i"
    using il ne by (simp add: bestLineOf_def i_eq nthOpt_Some jsOr_def)
qed

lemma TEMPLATES_member_good:
  assumes "t \<in> set TEMPLATES"
  shows "goodTemplate t"
    and "category t \<noteq> ''overall'' \<Longrightarrow> category t \<noteq> ''finisher'' \<Longrightarrow> category t \<in> set triggerCategories"
    and "category t = ''no_metrics'' \<Longrightarrow> l \<in> set (lines t) \<Longrightarrow> 123 \<notin> set l"
  using TEMPLATES_good assms by (auto simp: list_all_iff)

lemma in_set_nonempty: "x \<in> set xs \<Longrightarrow> xs \<noteq> []"
  by auto

lemma titles_nonempty: "titles lvl \<noteq> []"
  by (cases lvl) simp_all

lemma allRedemptions_length: "length allRedemptions = 8"
  by (simp add: allRedemptions_def)

lemma generateRoast_shape:
  fixes resume :: jsstring and lvl :: RoastLevel
    and ctx :: RoastContext and seed :: int and eligible triggered :: "RoastTemplate list"
  defines "ctx \<equiv> buildContext resume"
    and "seed \<equiv> simpleHash resume"
    and "eligible \<equiv>
      filter (\<lambda>t. LEVEL_ORDER (minLevel t) \<le> LEVEL_ORDER lvl \<and> trigger t ctx) TEMPLATES"
    and "triggered \<equiv>
      filter (\<lambda>t. category t \<noteq> ''overall'' \<and> category t \<noteq> ''finisher'') eligible"
  shows "\<exists>r l1 new2 new3 new4. generateRoast resume lvl = Some r
      \<and> roastLines r = l1 @ new2 @ new3 @ new4
      \<and> l1 \<noteq> [] \<and> new4 \<noteq> []
      \<and> (\<forall>l\<in>set (roastLines r). l \<noteq> [])
      \<and> (\<forall>t\<in>set triggered. \<exists>t'\<in>set triggered. category t' = category t
            \<and> (\<exists>l\<in>set (lines t'). 123 \<notin> set l \<longrightarrow> l \<in> set new2))
      \<and> bestLine r = bestLineOf (roastLines r)
            (seed mod max 1 (min (int (length (roastLines r)) - 2) 8) + 1)
      \<and> title r \<in> set (titles lvl)
      \<and> length (redemption r) = 3 \<and> set (redemption r) \<subseteq> set allRedemptions
      \<and> boundaries r = roastBoundaries"
proof -
  let ?overall = "filter (\<lambda>t. category t = ''overall'') eligible"
  let ?finisher = "filter (\<lambda>t. category t = ''finisher'') eligible"
  have el_sub: "set eligible \<subseteq> set TEMPLATES" by (auto simp: eligible_def)
  have el_good: "\<forall>t\<in>set eligible. goodTemplate t"
    using el_sub TEMPLATES_member_good(1) by blast
  have tr_good: "\<forall>t\<in>set triggered. goodTemplate t \<and> category t \<in> set triggerCategories"
    using el_sub TEMPLATES_member_good(1,2) by (auto simp: triggered_def)
  have t0: "TEMPLATES ! 0 \<in> set TEMPLATES" and t26: "TEMPLATES ! 26 \<in> set TEMPLATES"
    by (simp_all add: TEMPLATES_length)
  have "TEMPLATES ! 0 \<in> set ?overall"
    using t0 TEMPLATES_overall_light by (simp add: eligible_def)
  then have ov_ne: "?overall \<noteq> []" by (rule in_set_nonempty)
  have "TEMPLATES ! 26 \<in> set ?finisher"
    using t26 TEMPLATES_finisher_light by (simp add: eligible_def)
  then have fi_ne: "?finisher \<noteq> []" by (rule in_set_nonempty)
  \<comment> \<open>the first loop\<close>
  from seededShuffle_Some [of ?overall seed] obtain so where
    so: "seededShuffle ?overall seed = Some so" "set so = set ?overall" "length so = length ?overall"
    by blast
  have so_good: "\<forall>t\<in>set so. goodTemplate t" using so(2) el_good by auto
  have so_ne: "so \<noteq> []" using so(3) ov_ne by auto
  have "\<forall>i\<in>set [0 ..< min 2 (length so)]. i < length so" by simp
  from overallLoop_Some [OF so_good this, of ctx seed "[]"] obtain l1 where
    l1: "overallLoop ctx seed so [0 ..< min 2 (length so)] [] = Some l1"
      "length l1 = min 2 (length so)" "\<forall>l\<in>set l1. l \<noteq> []"
    by auto
  have "0 < length so" using so_ne by simp
  then have "0 < length l1" using l1(2) by simp
  then have l1_ne: "l1 \<noteq> []" by auto
  have l1_len: "length l1 \<le> 2" using l1(2) by simp
  \<comment> \<open>the second loop\<close>
  from seededShuffle_Some [of triggered "seed + 100"] obtain st where
    st: "seededShuffle triggered (seed + 100) = Some st" "set st = set triggered"
    by blast
  have st_good: "\<forall>t\<in>set st. goodTemplate t \<and> category t \<in> set triggerCategories"
    using st(2) tr_good by auto
  have "length l1 \<le> 2 + length ([] :: string list)" using l1_len by simp
  from triggeredLoop_inv [OF st_good _ _ this, of ctx seed] obtain new2 used2 where
    l2: "triggeredLoop ctx seed st (l1, []) = Some (l1 @ new2, used2)"
      "\<forall>l\<in>set new2. l \<noteq> []"
      "set used2 = category ` set st"
      "\<forall>c\<in>set used2. \<exists>t\<in>set st. category t = c
            \<and> (\<exists>l\<in>set (lines t). 123 \<notin> set l \<longrightarrow> l \<in> set new2)"
      "length (l1 @ new2) \<le> max (length l1) 12"
    by auto
  \<comment> \<open>the third loop\<close>
  from tr_good have "\<forall>t\<in>set triggered. goodTemplate t" by simp
  from fillLoop_Some [OF this, of ctx seed "l1 @ new2"] obtain new3 where
    l3: "fillLoop ctx seed triggered (l1 @ new2) = Some ((l1 @ new2) @ new3)"
      "\<forall>l\<in>set new3. l \<noteq> []" "length ((l1 @ new2) @ new3) \<le> max (length (l1 @ new2)) 10"
    by blast
  have len3: "length ((l1 @ new2) @ new3) < 14" using l3(3) l2(5) l1_len by simp
  \<comment> \<open>the fourth loop\<close>
  from seededShuffle_Some [of ?finisher "seed + 200"] obtain sf where
    sf: "seededShuffle ?finisher (seed + 200) = Some sf" "set sf = set ?finisher"
      "length sf = length ?finisher"
    by blast
  have sf_good: "\<forall>t\<in>set sf. goodTemplate t" using sf(2) el_good by auto
  have "0 < length sf" using sf(3) fi_ne by simp
  then have sf_ne: "[0 ..< min 2 (length sf)] \<noteq> []" by simp
  have "\<forall>i\<in>set [0 ..< min 2 (length sf)]. i < length sf" by simp
  from finisherLoop_Some [OF sf_good this, of ctx seed "(l1 @ new2) @ new3"] obtain new4 where
    l4: "finisherLoop ctx seed sf [0 ..< min 2 (length sf)] ((l1 @ new2) @ new3)
          = Some (((l1 @ new2) @ new3) @ new4)"
      "\<forall>l\<in>set new4. l \<noteq> []" "new4 \<noteq> []"
    using len3 sf_ne by blast
  \<comment> \<open>the best line, the title and the redemptions\<close>
  let ?ls = "((l1 @ new2) @ new3) @ new4"
  have bi: "bestIdxOf seed (length ?ls) = Some (seed mod max 1 (min (int (length ?ls) - 2) 8) + 1)"
    by (rule bestIdxOf_Some) (simp add: seed_def simpleHash_nonneg)
  from seededPick_Some [OF titles_nonempty, of lvl seed] obtain ti where
    ti: "seededPick (titles lvl) seed = Some ti" "ti \<in> set (titles lvl)" by blast
  from seededShuffle_Some [of allRedemptions "seed + 500"] obtain sr where
    sr: "seededShuffle allRedemptions (seed + 500) = Some sr" "set sr = set allRedemptions"
      "length sr = length allRedemptions"
    by blast
  have red: "length (take 3 sr) = 3" "set (take 3 sr) \<subseteq> set allRedemptions"
    using sr(2,3) allRedemptions_length by (auto dest: in_set_takeD)
  let ?r = "\<lparr>title = ti, roastLines = ?ls,
      bestLine = bestLineOf ?ls (seed mod max 1 (min (int (length ?ls) - 2) 8) + 1),
      redemption = take 3 sr, boundaries = roastBoundaries\<rparr>"
  have gen: "generateRoast resume lvl = Some ?r"
    by (simp only: generateRoast_def Let_def ctx_def [symmetric] seed_def [symmetric]
          eligible_def [symmetric] triggered_def [symmetric]
          so(1) l1(1) st(1) l2(1) l3(1) sf(1) l4(1) bi ti(1) sr(1) Option.bind.simps fst_conv)
  have cats: "\<forall>t\<in>set triggered. \<exists>t'\<in>set triggered. category t' = category t
            \<and> (\<exists>l\<in>set (lines t'). 123 \<notin> set l \<longrightarrow> l \<in> set new2)"
  proof
    fix t assume "t \<in> set triggered"
    then have "category t \<in> set used2" using l2(3) st(2) by auto
    with l2(4) st(2) show "\<exists>t'\<in>set triggered. category t' = category t
            \<and> (\<exists>l\<in>set (lines t'). 123 \<notin> set l \<longrightarrow> l \<in> set new2)"
      by auto
  qed
  have all_ne: "\<forall>l\<in>set ?ls. l \<noteq> []" using l1(3) l2(2) l3(2) l4(2) by auto
  show ?thesis
    using gen l1_ne l4(3) all_ne cats ti(2) red
    by (intro exI [of _ ?r] exI [of _ l1] exI [of _ new2] exI [of _ new3] exI [of _ new4])
      (simp add: seed_def)
qed

lemma buildContext_metricCount:
  "RoastContext.metricCount (buildContext resume) = countSimpleMetrics resume"
  by (simp add: buildContext_def Let_def)

subsection \<open>The analyzer returns\<close>

lemma proofOfImpactOf_Some:
  "\<exists>p. proofOfImpactOf m b v = Some p \<and> 0 \<le> p \<and> p \<le> 100"
  by (simp add: proofOfImpactOf_def jsDiv_def clamp100_def)

lemma weights_length: "length weights = 6"
  by (simp add: weights_def)

lemma weightedFrom_Some:
  "i + length ss \<le> 6 \<Longrightarrow> \<exists>w. weightedFrom acc i ss = Some w"
  by (induction ss arbitrary: acc i) (simp_all add: nthOpt_def weights_length)

lemma redFlagsOf_Some:
  "\<exists>f. redFlagsOf m hp hg bz vg he hs hsu nl ns lk nw = Some f"
  by (simp add: redFlagsOf_def nthOpt_def)

lemma strengthsOf_nonempty: "strengthsOf m t hp hg hw iv ow ad ps hc sc \<noteq> []"
  by (simp add: strengthsOf_def Let_def)

lemma summaryOf_Some: "\<exists>s. summaryOf st rf = Some s"
  by (simp add: summaryOf_def nthOpt_def Let_def)

lemma breakdownOf_scores:
  "map BreakdownItem.score (breakdownOf a b c d e f n) = [a, b, c, d, e, f]"
  by (simp add: breakdownOf_def)

text \<open>
  The analyzer returns a result for every text, and this is what the result holds: \<open>p\<close> is
  the Proof of Impact score before the inversion, \<open>w\<close> the weighted average.
\<close>

lemma analyzeResume_result:
  fixes resume :: jsstring and c :: jsstring
  defines "c \<equiv> cleanText resume"
  shows "\<exists>r p w. analyzeResume resume = Some r
    \<and> proofOfImpactOf (countMetrics c) (length (extractBullets c))
          (length (detectImpactVerbs c)) = Some p
    \<and> map name (breakdown r) = map js [''Role Susceptibility'', ''Proof of Impact'',
          ''Differentiation'', ''Portfolio & Shipping Signals'', ''Clarity & Structure'',
          ''Adaptability Signals'']
    \<and> BreakdownItem.score (breakdown r ! 1) = of_int (jsRound (jsSub 100 p))
    \<and> AnalyzeResponse.score r = 11 - riskScoreOf w
    \<and> label r = labelOf (11 - riskScoreOf w)
    \<and> strengths r \<noteq> []
    \<and> redFlagsOf (countMetrics c) (present (extractSections c ''projects''))
          (test True (Str ''github.com'') c) (detectBuzzwords c) (detectVaguePhrases c)
          (present (extractSections c ''experience'')) (present (extractSections c ''skills''))
          (present (extractSections c ''summary''))
          (length (filter (\<lambda>b. length (splitSpaces b) > 35) (extractBullets c)))
          (length (filter (\<lambda>b. length (splitSpaces b) < 6) (extractBullets c)))
          (countLinks c) (length (wordsOf c)) = Some (redFlags r)
    \<and> summaryOf (strengths r) (redFlags r) = Some (summary r)
    \<and> detected r = \<lparr>DetectedInfo.wordCount = length (wordsOf c),
          DetectedInfo.bulletCount = length (extractBullets c),
          DetectedInfo.metricCount = countMetrics c,
          DetectedInfo.linkCount = countLinks c,
          DetectedInfo.hasProjects = present (extractSections c ''projects''),
          DetectedInfo.hasExperience = present (extractSections c ''experience''),
          DetectedInfo.hasSkills = present (extractSections c ''skills''),
          DetectedInfo.hasEducation = present (extractSections c ''education'')\<rparr>
    \<and> length (disclaimers r) = 3"
proof -
  let ?bullets = "extractBullets c"
  let ?nWords = "length (wordsOf c)"
  let ?buzz = "detectBuzzwords c"
  let ?tech = "detectTechStack c"
  let ?scale = "detectScaleWords c"
  let ?vague = "detectVaguePhrases c"
  let ?impact = "detectImpactVerbs c"
  let ?hasE = "present (extractSections c ''experience'')"
  let ?hasP = "present (extractSections c ''projects'')"
  let ?hasS = "present (extractSections c ''skills'')"
  let ?hasEd = "present (extractSections c ''education'')"
  let ?hasSu = "present (extractSections c ''summary'')"
  let ?hasC = "present (extractSections c ''certifications'')"
  let ?ship = "someWord c SHIPPING_VERBS"
  let ?gh = "test True (Str ''github.com'') c"
  let ?web = "test True websitePattern c"
  let ?long = "filter (\<lambda>b. length (splitSpaces b) > 35) ?bullets"
  let ?short = "filter (\<lambda>b. length (splitSpaces b) < 6) ?bullets"
  let ?routine = "list_ex (\<lambda>k. includesStr (toLowerCase c) (js k)) ROUTINE_ROLE_KEYWORDS"
  let ?own = "someWord (toLowerCase c) OWNERSHIP_KEYWORDS"
  let ?adapt = "someWord (toLowerCase c) ADAPTABILITY_KEYWORDS"
  let ?ps = "length (filter id [?hasE, ?hasS, ?hasEd, ?hasSu])"
  let ?dens = "if ?nWords > 0 then jsDiv (of_nat (hits ?buzz)) (of_nat ?nWords) else Some 0"
  have "\<exists>d. ?dens = Some d" by (simp add: jsDiv_def)
  then obtain d where d: "?dens = Some d" ..
  obtain p where p: "proofOfImpactOf (countMetrics c) (length ?bullets) (length ?impact) = Some p"
    using proofOfImpactOf_Some by blast
  let ?role = "roleSusceptibilityOf ?routine ?own (length ?vague) (length ?impact)"
  let ?diff = "differentiationOf (length ?tech) (length ?scale) ?hasC"
  let ?port = "portfolioSignalsOf ?gh ?web ?hasP ?ship (countLinks c)"
  let ?clar = "clarityOf ?ps d (length ?long) (length ?short) (length ?bullets) (length ?vague)"
  let ?adap = "adaptabilityOf ?adapt (length ?tech) (length ?scale)"
  let ?bd = "breakdownOf ?role p ?diff ?port ?clar ?adap (length ?tech)"
  have "\<exists>w. weightedFrom 0 0 (map BreakdownItem.score ?bd) = Some w"
    unfolding breakdownOf_scores by (rule weightedFrom_Some) simp
  then obtain w where w: "weightedFrom 0 0 (map BreakdownItem.score ?bd) = Some w" ..
  let ?st = "strengthsOf (countMetrics c) (length ?tech) ?hasP ?gh ?web (length ?impact) ?own
      ?adapt ?ps ?hasC (length ?scale)"
  obtain f where f: "redFlagsOf (countMetrics c) ?hasP ?gh ?buzz ?vague ?hasE ?hasS ?hasSu
      (length ?long) (length ?short) (countLinks c) ?nWords = Some f"
    using redFlagsOf_Some by blast
  obtain s where s: "summaryOf ?st f = Some s"
    using summaryOf_Some by blast
  let ?r = \<open>\<lparr>AnalyzeResponse.score = 11 - riskScoreOf w,
      label = labelOf (11 - riskScoreOf w),
      summary = s,
      breakdown = map (\<lambda>b. b\<lparr>BreakdownItem.score :=
          of_int (jsRound (jsSub 100 (BreakdownItem.score b)))\<rparr>) ?bd,
      strengths = ?st,
      redFlags = f,
      detected = \<lparr>DetectedInfo.wordCount = ?nWords,
        DetectedInfo.bulletCount = length ?bullets,
        DetectedInfo.metricCount = countMetrics c,
        DetectedInfo.linkCount = countLinks c,
        DetectedInfo.hasProjects = ?hasP,
        DetectedInfo.hasExperience = ?hasE,
        DetectedInfo.hasSkills = ?hasS,
        DetectedInfo.hasEducation = ?hasEd\<rparr>,
      disclaimers =
        [js ''This analysis is rule-based and does not use any AI/LLM.'',
         js ''Scores are computed from heuristic pattern matching and may not capture all nuances.'',
         js ''A high risk score does not mean you\'ll be replaced - it highlights areas to strengthen.'']\<rparr>\<close>
  have gen: "analyzeResume resume = Some ?r"
    by (simp only: analyzeResume_def Let_def c_def [symmetric] d p w f s Option.bind.simps)
  have names: "map name (breakdown ?r) = map js [''Role Susceptibility'', ''Proof of Impact'',
          ''Differentiation'', ''Portfolio & Shipping Signals'', ''Clarity & Structure'',
          ''Adaptability Signals'']"
    by (simp add: breakdownOf_def)
  have poi: "BreakdownItem.score (breakdown ?r ! 1) = of_int (jsRound (jsSub 100 p))"
    by (simp add: breakdownOf_def)
  show ?thesis
    using gen p names poi f s strengthsOf_nonempty
    by (intro exI [of _ ?r] exI [of _ p] exI [of _ w]) simp
qed

subsection \<open>The improver returns\<close>

lemma padFixes_add:
  "length fs + k = 3 \<Longrightarrow> padFixes fs = fs @ replicate k genericFix"
proof (induction k arbitrary: fs)
  case 0
  then show ?case by (subst padFixes.simps) simp
next
  case (Suc k)
  then have "length (fs @ [genericFix]) + k = 3" by simp
  from Suc.IH [OF this] Suc.prems show ?case
    by (subst padFixes.simps) (simp add: replicate_app_Cons_same)
qed

lemma padFixes_eq: "padFixes fs = fs @ replicate (3 - length fs) genericFix"
proof (cases "length fs < 3")
  case True
  then have "length fs + (3 - length fs) = 3" by simp
  then show ?thesis by (rule padFixes_add)
next
  case False
  then show ?thesis by (subst padFixes.simps) simp
qed

lemma fixesOf_Some: "\<exists>fs. fixesOf m vg hsu hp lk bz nw hs nt = Some fs"
  by (simp add: fixesOf_def nthOpt_def)

lemma rewriteVerbs_length: "length rewriteVerbs = 6"
  by (simp add: rewriteVerbs_def)

lemma rewriteAt_Some: "i < length toRewrite \<Longrightarrow> \<exists>r. rewriteAt toRewrite tech i = Some r"
proof -
  assume i: "i < length toRewrite"
  have r: "jsRem (int i) (int (length rewriteVerbs)) = Some (int i mod 6)"
    by (simp add: jsRem_nonneg rewriteVerbs_length)
  have "nat (int i mod 6) < length rewriteVerbs"
    by (simp add: rewriteVerbs_length nat_less_iff)
  then show ?thesis
    using i by (simp add: rewriteAt_def r nthOpt_Some Let_def)
qed

lemma rewriteLoop_Some:
  "\<forall>i\<in>set idxs. i < length toRewrite \<Longrightarrow>
   \<exists>new. rewriteLoop toRewrite tech idxs acc = Some (acc @ new) \<and> length new = length idxs"
proof (induction idxs arbitrary: acc)
  case Nil
  then show ?case by simp
next
  case (Cons i idxs)
  then have "i < length toRewrite" by simp
  from rewriteAt_Some [OF this, of tech] obtain r where r: "rewriteAt toRewrite tech i = Some r" ..
  from Cons have "\<forall>i\<in>set idxs. i < length toRewrite" by simp
  from Cons.IH [OF this, of "acc @ [r]"] obtain new where
    "rewriteLoop toRewrite tech idxs (acc @ [r]) = Some ((acc @ [r]) @ new)"
    "length new = length idxs" by blast
  with r show ?case by (intro exI [of _ "r # new"]) simp
qed

lemma generateBulletRewrites_Some:
  "\<exists>rs. generateBulletRewrites bullets tech = Some rs \<and> length rs \<le> 3"
proof -
  let ?cands = "filter (\<lambda>b. list_ex (\<lambda>p. test True p b) vaguePatterns
      \<or> \<not> test True anyMetric b) bullets"
  let ?t0 = "take 3 ?cands"
  let ?t = "if length ?t0 = 0 \<and> length bullets > 0
            then ?t0 @ take (min 3 (length bullets)) bullets else ?t0"
  have len: "length ?t \<le> 3" by simp
  have "\<forall>i\<in>set [0 ..< length ?t]. i < length ?t" by simp
  from rewriteLoop_Some [OF this, of tech "[]"] obtain new where
    new: "rewriteLoop ?t tech [0 ..< length ?t] [] = Some new" "length new = length ?t"
    by auto
  have "generateBulletRewrites bullets tech = Some new"
    by (simp only: generateBulletRewrites_def Let_def new(1))
  with new(2) len show ?thesis by (intro exI [of _ new]) simp
qed

lemma generateImprovements_result:
  "\<exists>r fs. generateImprovements resume = Some r
     \<and> fixesOf (countSimpleMetrics resume) (detectVaguePhrases resume)
          (test True summaryWord resume) (test True projectsWord resume)
          (length (matchAll True urlPattern resume)) (detectBuzzwords resume)
          (length (wordsOf resume)) (test True skillsWord resume)
          (length (detectTechStack resume)) = Some fs
     \<and> priorityFixes r = take 7 (padFixes fs)
     \<and> length (rewrittenBullets r) \<le> 3
     \<and> improvedSummary r = generateSummary resume (detectTechStack resume)
     \<and> atsTips r = atsTipsOf (length (wordsOf resume))
          (matchAll True monthDates resume = [] \<and> matchAll True dashDates resume = [])"
proof -
  obtain fs where fs: "fixesOf (countSimpleMetrics resume) (detectVaguePhrases resume)
          (test True summaryWord resume) (test True projectsWord resume)
          (length (matchAll True urlPattern resume)) (detectBuzzwords resume)
          (length (wordsOf resume)) (test True skillsWord resume)
          (length (detectTechStack resume)) = Some fs"
    using fixesOf_Some by blast
  obtain rs where rs: "generateBulletRewrites (extractBullets resume) (detectTechStack resume)
      = Some rs" "length rs \<le> 3"
    using generateBulletRewrites_Some by blast
  let ?r = "\<lparr>priorityFixes = take 7 (padFixes fs),
      rewrittenBullets = rs,
      improvedSummary = generateSummary resume (detectTechStack resume),
      atsTips = atsTipsOf (length (wordsOf resume))
          (matchAll True monthDates resume = [] \<and> matchAll True dashDates resume = [])\<rparr>"
  have "generateImprovements resume = Some ?r"
    by (simp only: generateImprovements_def Let_def fs rs(1) Option.bind.simps)
  with fs rs(2) show ?thesis by (intro exI [of _ ?r] exI [of _ fs]) simp
qed

lemma atsTipsOf_length: "4 \<le> length (atsTipsOf n b)"
  by (simp add: atsTipsOf_def)

lemma padFixes_take_length: "3 \<le> length (take 7 (padFixes fs)) \<and> length (take 7 (padFixes fs)) \<le> 7"
proof -
  have "length (padFixes fs) = length fs + (3 - length fs)" by (simp add: padFixes_eq)
  then have "3 \<le> length (padFixes fs)" by simp
  then show ?thesis by simp
qed

text \<open>What the repetition of a class consumes.\<close>

lemma many_consumes:
  "q \<in> set (many ci c n (p, s)) \<Longrightarrow>
     \<exists>ds. s = ds @ snd q \<and> list_all (inCls ci c) ds \<and> n \<le> length ds
        \<and> fst q = (if ds = [] then p else Some (last ds))"
proof (induction s arbitrary: n p q)
  case Nil
  then show ?case by (auto split: if_splits)
next
  case (Cons x xs)
  from Cons.prems consider
      (more) "inCls ci c x" "q \<in> set (many ci c (n - 1) (Some x, xs))"
    | (stop) "n = 0" "q = (p, x # xs)"
    by (auto split: if_splits)
  then show ?case
  proof cases
    case more
    from Cons.IH [OF more(2)] obtain ds where
      ds: "xs = ds @ snd q" "list_all (inCls ci c) ds" "n - 1 \<le> length ds"
        "fst q = (if ds = [] then Some x else Some (last ds))"
      by blast
    show ?thesis
      using ds more(1) by (intro exI [of _ "x # ds"]) auto
  next
    case stop
    then show ?thesis by (intro exI [of _ "[]"]) simp
  qed
qed

lemma follows_append: "follows P Q s \<Longrightarrow> follows P Q (pre @ s)"
proof (induction pre)
  case Nil
  then show ?case by simp
next
  case (Cons a pre)
  then show ?case by (cases "pre @ s") auto
qed

lemma follows_mid: "P a \<Longrightarrow> Q b \<Longrightarrow> follows P Q (pre @ a # b # s)"
  using follows_append [of P Q "a # b # s" pre] by simp

lemma snoc_split: "ds \<noteq> [] \<Longrightarrow> ds @ rest = butlast ds @ last ds # rest"
  by (metis append_butlast_last_id append.assoc append_Cons append_Nil)

lemma follows_last:
  assumes "ds \<noteq> []" "P (last ds)" "Q b"
  shows "follows P Q (ds @ b # s)"
proof -
  have "follows P Q (butlast ds @ last ds # b # s)"
    using assms(2,3) by (rule follows_mid)
  then show ?thesis by (simp only: snoc_split [OF assms(1), symmetric])
qed

lemma hasMultiplier_append: "hasMultiplier s \<Longrightarrow> hasMultiplier (pre @ s)"
proof (induction pre)
  case Nil
  then show ?case by simp
next
  case (Cons a pre)
  then show ?case by (cases "pre @ s") auto
qed

lemma hasMultiplier_last:
  assumes "ds \<noteq> []" "isDigit (last ds)" "x = 120 \<or> x = 88"
    and "s = [] \<or> \<not> isWordChar (hd s)"
  shows "hasMultiplier (ds @ x # s)"
proof -
  have "hasMultiplier (last ds # x # s)"
    using assms by (cases s) auto
  then have "hasMultiplier (butlast ds @ last ds # x # s)"
    by (rule hasMultiplier_append)
  then show ?thesis by (simp only: snoc_split [OF assms(1), symmetric])
qed

text \<open>The three expressions of the roaster, at one position.\<close>

lemma matchAt_None: "(matchAt ci r pos = None) = (ends ci r pos = [])"
  by (simp add: matchAt_def split: list.splits)

lemma seq_match:
  "matchAt ci (Seq a b) pos \<noteq> None \<Longrightarrow> \<exists>q\<in>set (ends ci a pos). matchAt ci b q \<noteq> None"
  by (auto simp: matchAt_None)

lemma lit_match: "matchAt ci (Lit cs) q \<noteq> None \<Longrightarrow> \<exists>e. eat ci cs q = Some e"
  by (simp add: matchAt_None split: option.splits)

lemma eat_one: "eat ci [a] (p, s) = Some q \<Longrightarrow> \<exists>x xs. s = x # xs \<and> canon ci a = canon ci x \<and> q = (Some x, xs)"
  by (cases s) (auto split: if_splits)

lemma digit_class: "list_all (inCls ci (Cls [CDigit])) ds \<Longrightarrow> ds \<noteq> [] \<Longrightarrow> isDigit (last ds)"
  by (induction ds) (auto split: if_splits)

lemma percent_at:
  assumes "matchAt False (Seq digits1 (Str ''%'')) (p, s) \<noteq> None"
  shows "hasPercentage s"
proof -
  from seq_match [OF assms] obtain q where q: "q \<in> set (many False (Cls [CDigit]) 1 (p, s))"
    and "matchAt False (Str ''%'') q \<noteq> None"
    by (auto simp: digits1_def)
  then obtain e where e: "eat False [37] q = Some e"
    using lit_match [of False "[37]" q] by (auto simp: Str_def js_def)
  from many_consumes [OF q] obtain ds where
    ds: "s = ds @ snd q" "list_all (inCls False (Cls [CDigit])) ds" "1 \<le> length ds"
    by blast
  from e obtain xs where xs: "snd q = 37 # xs"
    using eat_one [of False 37 "fst q" "snd q" e] by (auto simp: canon_def)
  have ne: "ds \<noteq> []" using ds(3) by auto
  have "follows isDigit (\<lambda>c. c = 37) (ds @ 37 # xs)"
    using ne digit_class [OF ds(2) ne] by (intro follows_last) simp_all
  then show ?thesis
    by (simp only: hasPercentage_def ds(1) xs)
qed

lemma dollar_at:
  assumes "matchAt False (Seq (Str ''$'') (Many (Cls [CDigit, CChr CHR '','']) 1)) (p, s) \<noteq> None"
  shows "hasDollarAmount s"
proof -
  from seq_match [OF assms] obtain e where "e \<in> set (ends False (Str ''$'') (p, s))"
    and m: "matchAt False (Many (Cls [CDigit, CChr CHR '','']) 1) e \<noteq> None"
    by blast
  then have e: "eat False [36] (p, s) = Some e"
    by (auto simp: Str_def js_def split: option.splits)
  from m obtain q where q: "q \<in> set (many False (Cls [CDigit, CLit 44]) 1 e)"
    by (cases "many False (Cls [CDigit, CLit 44]) 1 e") (auto simp: matchAt_None CChr_def)
  from eat_one [OF e] obtain xs where s: "s = 36 # xs" "e = (Some 36, xs)"
    by (auto simp: canon_def)
  from many_consumes [of q False "Cls [CDigit, CLit 44]" 1 "Some 36" xs] q s obtain ds where
    ds: "xs = ds @ snd q" "list_all (inCls False (Cls [CDigit, CLit 44])) ds" "1 \<le> length ds"
    by blast
  then obtain d ds' where "ds = d # ds'" "isDigit d \<or> d = 44"
    by (cases ds) (auto simp: canon_def)
  then show ?thesis
    unfolding hasDollarAmount_def s(1) ds(1) by simp
qed

lemma times_at:
  assumes "matchAt True (seqs [digits1, Str ''x'', WordB]) (p, s) \<noteq> None"
  shows "hasMultiplier s"
proof -
  from assms have "matchAt True (Seq digits1 (Seq (Str ''x'') WordB)) (p, s) \<noteq> None"
    by simp
  from seq_match [OF this] obtain q where q: "q \<in> set (many True (Cls [CDigit]) 1 (p, s))"
    and "matchAt True (Seq (Str ''x'') WordB) q \<noteq> None"
    by (auto simp: digits1_def)
  from seq_match [OF this(2)] obtain e where "e \<in> set (ends True (Str ''x'') q)"
    and "matchAt True WordB e \<noteq> None"
    by blast
  then have e: "eat True [120] q = Some e" and w: "wordBefore e \<noteq> wordAfter e"
    by (auto simp: Str_def js_def matchAt_None split: option.splits if_splits)
  from many_consumes [OF q] obtain ds where
    ds: "s = ds @ snd q" "list_all (inCls True (Cls [CDigit])) ds" "1 \<le> length ds"
    by blast
  from eat_one [of True 120 "fst q" "snd q" e] e obtain x xs where
    x: "snd q = x # xs" "canon True 120 = canon True x" "e = (Some x, xs)"
    by auto
  from x(2) have x': "x = 120 \<or> x = 88"
    by (auto simp: canon_def split: if_splits)
  then have "wordBefore e" using x(3) by (auto simp: wordBefore_def isWordChar_def)
  with w have "\<not> wordAfter e" by simp
  then have "xs = [] \<or> \<not> isWordChar (hd xs)"
    using x(3) by (cases xs) (auto simp: wordAfter_def)
  moreover have ne: "ds \<noteq> []" using ds(3) by auto
  ultimately have "hasMultiplier (ds @ x # xs)"
    using digit_class [OF ds(2) ne] x' by (intro hasMultiplier_last) simp_all
  then show ?thesis
    by (simp only: ds(1) x(1))
qed

text \<open>No match at any position, no match in the text.\<close>

lemma matchAllFrom_none:
  "(\<And>p' pre suf. s = pre @ suf \<Longrightarrow> matchAt ci r (p', suf) = None) \<Longrightarrow>
     matchAllFrom ci r p s = []"
proof (induction s arbitrary: p)
  case Nil
  then show ?case by simp
next
  case (Cons x xs)
  have here: "matchAt ci r (p, x # xs) = None"
    using Cons.prems [of "[]" "x # xs" p] by simp
  have "matchAllFrom ci r (Some x) xs = []"
  proof (rule Cons.IH)
    fix p' pre suf
    assume "xs = pre @ suf"
    then show "matchAt ci r (p', suf) = None"
      using Cons.prems [of "x # pre" suf p'] by simp
  qed
  with here show ?case by simp
qed

lemma no_match_anywhere:
  assumes at: "\<And>p suf. matchAt ci r (p, suf) \<noteq> None \<Longrightarrow> H suf"
    and up: "\<And>pre suf. H suf \<Longrightarrow> H (pre @ suf)"
    and no: "\<not> H s"
  shows "matchAllFrom ci r p0 s = []"
proof (rule matchAllFrom_none)
  fix p' pre suf
  assume s: "s = pre @ suf"
  show "matchAt ci r (p', suf) = None"
  proof (rule ccontr)
    assume "matchAt ci r (p', suf) \<noteq> None"
    then have "H (pre @ suf)" by (intro up at)
    with no s show False by simp
  qed
qed

lemma countSimpleMetrics_zero:
  assumes "\<not> hasPercentage s" "\<not> hasDollarAmount s" "\<not> hasMultiplier s"
  shows "countSimpleMetrics s = 0"
proof -
  have a: "matchAllFrom False (Seq digits1 (Str ''%'')) None s = []"
    using percent_at follows_append assms(1)
    by (intro no_match_anywhere [where H = hasPercentage]) (auto simp: hasPercentage_def)
  have b: "matchAllFrom False (Seq (Str ''$'') (Many (Cls [CDigit, CChr CHR '','']) 1)) None s = []"
    using dollar_at follows_append assms(2)
    by (intro no_match_anywhere [where H = hasDollarAmount]) (auto simp: hasDollarAmount_def)
  have c: "matchAllFrom True (seqs [digits1, Str ''x'', WordB]) None s = []"
    using times_at hasMultiplier_append assms(3)
    by (intro no_match_anywhere [where H = hasMultiplier])
  show ?thesis
    unfolding countSimpleMetrics_def simpleMetricPatterns_def matchAll_def
    by (simp only: foldl.simps prod.case a b c list.size add_0)
qed

section \<open>The claims\<close>

text \<open>
  C1. On the scenario resume (no metrics, no links, no skills, projects or summary
  section) the claim expects a final score of at most 3 with the label High Risk. The
  analyzer returns the score 8 with the label Low Risk: the weighted average of the six
  category scores is 27.95, its tenth rounds up to 3, and the reported score is 11 - 3.
  The red flags for the missing metrics, projects, skills section and summary are
  all reported, as the claim says.
\<close>

theorem scenario_scores_low_risk:
  "\<exists>r. analyzeResume scenarioText = Some r
     \<and> AnalyzeResponse.score r = 8
     \<and> label r = js ''Low Risk''
     \<and> js ''Zero quantified metrics - every bullet should have numbers'' \<in> set (redFlags r)
     \<and> js ''No projects or code portfolio visible'' \<in> set (redFlags r)
     \<and> js ''No dedicated skills section'' \<in> set (redFlags r)
     \<and> js ''Missing summary/profile section'' \<in> set (redFlags r)"
proof -
  have "map_option (\<lambda>r. (AnalyzeResponse.score r, label r, redFlags r))
          (analyzeResume scenarioText)
        = Some (8, js ''Low Risk'',
            [js ''Zero quantified metrics - every bullet should have numbers'',
             js ''No projects or code portfolio visible'',
             js ''Vague phrases detected: \"responsible for\"'',
             js ''No dedicated skills section'',
             js ''Missing summary/profile section'',
             js ''No URLs or links found anywhere'',
             js ''Resume seems very short - too few details''])"
    by code_simp
  then obtain r where r: "analyzeResume scenarioText = Some r"
    and v: "(AnalyzeResponse.score r, label r, redFlags r)
        = (8, js ''Low Risk'',
            [js ''Zero quantified metrics - every bullet should have numbers'',
             js ''No projects or code portfolio visible'',
             js ''Vague phrases detected: \"responsible for\"'',
             js ''No dedicated skills section'',
             js ''Missing summary/profile section'',
             js ''No URLs or links found anywhere'',
             js ''Resume seems very short - too few details''])"
    by (auto simp: map_option_case split: option.splits)
  from v have "AnalyzeResponse.score r = 8" "label r = js ''Low Risk''"
    and f: "redFlags r =
            [js ''Zero quantified metrics - every bullet should have numbers'',
             js ''No projects or code portfolio visible'',
             js ''Vague phrases detected: \"responsible for\"'',
             js ''No dedicated skills section'',
             js ''Missing summary/profile section'',
             js ''No URLs or links found anywhere'',
             js ''Resume seems very short - too few details'']"
    by simp_all
  with r show ?thesis
    by (intro exI [of _ r]) (simp only: f list.set insert_iff simp_thms)
qed

text \<open>
  C4, as the code has it. For every text in which no digit is directly followed by a
  percent sign, no dollar sign is directly followed by a digit or a comma, and no digit is
  directly followed by \<open>x\<close> or \<open>X\<close> at the end of a word, and for every intensity
  level, the roast lines include a line of a template of the category \<open>no_metrics\<close>.
  The claim also asks for the absence of impact phrases; the roaster does not look at
  them, so the theorem holds without that.
\<close>

theorem roast_has_no_metrics_line:
  assumes "\<not> hasPercentage resume" "\<not> hasDollarAmount resume" "\<not> hasMultiplier resume"
  shows "\<exists>r t l. generateRoast resume lvl = Some r
           \<and> t \<in> set TEMPLATES \<and> category t = ''no_metrics''
           \<and> l \<in> set (lines t) \<and> l \<in> set (roastLines r)"
proof -
  let ?ctx = "buildContext resume"
  let ?eligible =
    "filter (\<lambda>t. LEVEL_ORDER (minLevel t) \<le> LEVEL_ORDER lvl \<and> trigger t ?ctx) TEMPLATES"
  let ?triggered =
    "filter (\<lambda>t. category t \<noteq> ''overall'' \<and> category t \<noteq> ''finisher'') ?eligible"
  have zero: "RoastContext.metricCount ?ctx = 0"
    unfolding buildContext_metricCount using assms by (rule countSimpleMetrics_zero)
  from generateRoast_shape [of resume lvl] obtain r l1 new2 new3 new4 where
    r: "generateRoast resume lvl = Some r" "roastLines r = l1 @ new2 @ new3 @ new4"
    and cats: "\<forall>t\<in>set ?triggered. \<exists>t'\<in>set ?triggered. category t' = category t
            \<and> (\<exists>l\<in>set (lines t'). 123 \<notin> set l \<longrightarrow> l \<in> set new2)"
    by blast
  have "TEMPLATES ! 3 \<in> set TEMPLATES" by (simp add: TEMPLATES_length)
  then have "TEMPLATES ! 3 \<in> set ?triggered"
    using TEMPLATES_no_metrics_light zero by simp
  with cats obtain t l where t: "t \<in> set ?triggered" "category t = category (TEMPLATES ! 3)"
    and l: "l \<in> set (lines t)" "123 \<notin> set l \<longrightarrow> l \<in> set new2"
    by blast
  from t have tt: "t \<in> set TEMPLATES" and c: "category t = ''no_metrics''"
    using TEMPLATES_no_metrics_light by simp_all
  from TEMPLATES_member_good(3) [OF tt c l(1)] l(2) have "l \<in> set new2" by simp
  with r tt c l(1) show ?thesis by auto
qed

text \<open>The theorem at the scenario resume, which has no digit, at the spicy level.\<close>

theorem roast_has_no_metrics_line_witness:
  "(\<not> hasPercentage scenarioText \<and> \<not> hasDollarAmount scenarioText
      \<and> \<not> hasMultiplier scenarioText)
   \<and> (\<exists>r t l. generateRoast scenarioText spicy = Some r
           \<and> t \<in> set TEMPLATES \<and> category t = ''no_metrics''
           \<and> l \<in> set (lines t) \<and> l \<in> set (roastLines r))"
proof -
  have h: "\<not> hasPercentage scenarioText" "\<not> hasDollarAmount scenarioText"
      "\<not> hasMultiplier scenarioText"
    by code_simp+
  from roast_has_no_metrics_line [OF h, of spicy] h show ?thesis by simp
qed

text \<open>
  C4 as stated fails on a dollar sign followed by a comma: the roaster counts it as a
  metric. The resume below has no digit at all, so no percentage, no dollar amount, no
  multiplier and no impact phrase with a number; the roaster counts one metric in it, and
  at the spicy level none of the returned lines is a line of a \<open>no_metrics\<close> template.
\<close>

theorem dollar_comma_roast_lacks_no_metrics_line:
  "\<not> list_ex isDigit dollarCommaText
   \<and> RoastContext.metricCount (buildContext dollarCommaText) = 1
   \<and> (\<exists>r. generateRoast dollarCommaText spicy = Some r
         \<and> \<not> list_ex (\<lambda>l. l \<in> set (linesOf ''no_metrics'')) (roastLines r))"
proof -
  have a: "\<not> list_ex isDigit dollarCommaText"
    by code_simp
  have b: "RoastContext.metricCount (buildContext dollarCommaText) = 1"
    unfolding buildContext_metricCount by code_simp
  have "map_option (\<lambda>r. list_ex (\<lambda>l. l \<in> set (linesOf ''no_metrics'')) (roastLines r))
          (generateRoast dollarCommaText spicy) = Some False"
    by code_simp
  then have "\<exists>r. generateRoast dollarCommaText spicy = Some r
         \<and> \<not> list_ex (\<lambda>l. l \<in> set (linesOf ''no_metrics'')) (roastLines r)"
    by (auto simp: map_option_case split: option.splits)
  with a b show ?thesis by simp
qed

text \<open>
  C6, as the code has it. For every text and level the best line is one of the roast
  lines, and there are at least two lines. It is the line at the index
  \<open>seed mod max 1 (min (n - 2) 8) + 1\<close>, where \<open>n\<close> is the number of lines; with
  three lines or more this index is neither the first nor the last, and with exactly two
  lines it is the last line.
\<close>

theorem best_line_is_a_roast_line:
  "\<exists>r. generateRoast resume lvl = Some r
     \<and> bestLine r \<in> set (roastLines r)
     \<and> 2 \<le> length (roastLines r)
     \<and> bestLine r = roastLines r !
          (nat (simpleHash resume mod max 1 (min (int (length (roastLines r)) - 2) 8)) + 1)
     \<and> 0 < nat (simpleHash resume mod max 1 (min (int (length (roastLines r)) - 2) 8)) + 1
     \<and> (if 3 \<le> length (roastLines r)
         then nat (simpleHash resume mod max 1 (min (int (length (roastLines r)) - 2) 8)) + 1
                < length (roastLines r) - 1
         else bestLine r = last (roastLines r))"
proof -
  from generateRoast_shape [of resume lvl] obtain r l1 new2 new3 new4 where
    r: "generateRoast resume lvl = Some r" "roastLines r = l1 @ new2 @ new3 @ new4"
      "l1 \<noteq> []" "new4 \<noteq> []" "\<forall>l\<in>set (roastLines r). l \<noteq> []"
      "bestLine r = bestLineOf (roastLines r)
            (simpleHash resume mod max 1 (min (int (length (roastLines r)) - 2) 8) + 1)"
    by blast
  let ?ls = "roastLines r"
  let ?i = "nat (simpleHash resume mod max 1 (min (int (length ?ls) - 2) 8)) + 1"
  have "1 \<le> length l1" "1 \<le> length new4" using r(3,4) by (simp_all add: Suc_le_eq)
  then have two: "2 \<le> length ?ls" unfolding r(2) length_append by linarith
  note b = bestLineOf_nth [OF two r(5) simpleHash_nonneg [of resume]]
  have eq: "bestLine r = ?ls ! ?i" using r(6) b(1) by simp
  have mem: "bestLine r \<in> set ?ls" unfolding eq using b(2) by (rule nth_mem)
  have last: "\<not> 3 \<le> length ?ls \<Longrightarrow> bestLine r = last ?ls"
  proof -
    assume "\<not> 3 \<le> length ?ls"
    with two have l2: "length ?ls = 2" by simp
    then have "?i = 1" by (rule b(5))
    moreover have "last ?ls = ?ls ! (length ?ls - 1)"
      using two by (intro last_conv_nth) auto
    ultimately show ?thesis using eq l2 by simp
  qed
  show ?thesis
    using r(1) mem two eq b(3) b(4) last by (intro exI [of _ r]) auto
qed

text \<open>
  C6 as stated fails where there are two lines only: a resume that triggers no template
  gets, at the light level, one opener and one finisher, and the best line is the
  finisher, the last line, not the first.
\<close>

theorem thin_roast_best_line_is_last:
  "\<exists>r. generateRoast thinRoastText light = Some r
     \<and> length (roastLines r) = 2
     \<and> bestLine r = last (roastLines r)
     \<and> bestLine r \<noteq> hd (roastLines r)"
proof -
  have "map_option (\<lambda>r. (length (roastLines r), bestLine r = last (roastLines r),
            bestLine r = hd (roastLines r))) (generateRoast thinRoastText light)
        = Some (2, True, False)"
    by code_simp
  then show ?thesis by (auto simp: map_option_case split: option.splits)
qed

end
